theory Spec2Isabelle
  imports Main
begin

section \<open>Python values, text and integer conversion\<close>

text \<open>
  The source is Python 2: \<open>str\<close> is a byte string, \<open>str(bytearray)\<close> is the
  bytearray's content, and \<open>string.rjust\<close>/\<open>string.ljust\<close> are the padding
  functions of the \<open>string\<close> module.  Values handed to \<open>setValue\<close> are strings or
  (unbounded) integers.
\<close>

datatype pyval = S string | I int

datatype error = NachaError string | ValueError | ZeroDivisionError

definition digit_chars :: string where
  "digit_chars = ''0123456789''"

definition digit_char :: "nat \<Rightarrow> char" where
  "digit_char d = digit_chars ! d"

text \<open>Decimal digits of a natural number, most significant first (\<open>str(n)\<close>, \<open>n \<ge> 0\<close>).\<close>

fun dec :: "nat \<Rightarrow> string" where
  "dec n = (if n < 10 then [digit_char n] else dec (n div 10) @ [digit_char (n mod 10)])"

declare dec.simps [simp del]

definition str_int :: "int \<Rightarrow> string" where
  "str_int i = (if i < 0 then CHR ''-'' # dec (nat (- i)) else dec (nat i))"

fun str :: "pyval \<Rightarrow> string" where
  "str (S s) = s"
| "str (I i) = str_int i"

definition digit_val :: "char \<Rightarrow> int option" where
  "digit_val c = map_of
     [(CHR ''0'', 0), (CHR ''1'', 1), (CHR ''2'', 2), (CHR ''3'', 3), (CHR ''4'', 4),
      (CHR ''5'', 5), (CHR ''6'', 6), (CHR ''7'', 7), (CHR ''8'', 8), (CHR ''9'', 9)] c"

definition is_space :: "char \<Rightarrow> bool" where
  "is_space c = (c \<in> set [CHR '' '', CHR 0x09, CHR 0x0A, CHR 0x0B, CHR 0x0C, CHR 0x0D])"

definition strip :: "string \<Rightarrow> string" where
  "strip s = rev (dropWhile is_space (rev (dropWhile is_space s)))"

text \<open>A non-empty run of decimal digits read as a number; anything else is no number.\<close>

definition digits_val :: "string \<Rightarrow> int option" where
  "digits_val cs =
     (if cs = [] \<or> (\<exists>c \<in> set cs. digit_val c = None) then None
      else Some (foldl (\<lambda>a c. 10 * a + the (digit_val c)) 0 cs))"

text \<open>
  \<open>int(s)\<close> on a byte string: surrounding whitespace is skipped, one sign is allowed,
  then decimal digits only.  \<open>None\<close> stands for the \<open>ValueError\<close> Python raises.
\<close>

definition py_int :: "string \<Rightarrow> int option" where
  "py_int s =
     (case strip s of
        [] \<Rightarrow> None
      | c # cs \<Rightarrow>
          if c = CHR ''-'' then map_option uminus (digits_val cs)
          else if c = CHR ''+'' then digits_val cs
          else digits_val (c # cs))"

definition int_of :: "string \<Rightarrow> error + int" where
  "int_of s = (case py_int s of None \<Rightarrow> Inl ValueError | Some i \<Rightarrow> Inr i)"

definition rjust :: "string \<Rightarrow> nat \<Rightarrow> char \<Rightarrow> string" where
  "rjust s width fillchar = replicate (width - length s) fillchar @ s"

definition ljust :: "string \<Rightarrow> nat \<Rightarrow> char \<Rightarrow> string" where
  "ljust s width fillchar = s @ replicate (width - length s) fillchar"

text \<open>\<open>sep.join(xs)\<close>.\<close>

fun join :: "string \<Rightarrow> string list \<Rightarrow> string" where
  "join sep [] = []"
| "join sep [x] = x"
| "join sep (x # y # ys) = x @ sep @ join sep (y # ys)"

definition NACHA_EOL :: string where
  "NACHA_EOL = [CHR 0x0D, CHR 0x0A]"

text \<open>
  Slices of a sequence with non-negative bounds.  Reading \<open>xs[s:e]\<close> clips both bounds
  to the length.  Assigning \<open>xs[s:e] = v\<close> on a bytearray replaces the clipped slice by
  \<open>v\<close>, whatever the length of \<open>v\<close>: the sequence shrinks or grows by the difference.
\<close>

definition get_slice :: "nat \<Rightarrow> nat \<Rightarrow> 'a list \<Rightarrow> 'a list" where
  "get_slice s e xs = drop s (take e xs)"

definition set_slice :: "nat \<Rightarrow> nat \<Rightarrow> 'a list \<Rightarrow> 'a list \<Rightarrow> 'a list" where
  "set_slice s e v xs = take s xs @ v @ drop (max s e) xs"


section \<open>Fields and records\<close>

datatype field_kind = NUMERIC | ALPHAMERIC | ROUTING

record NachaField =
  field_name :: string
  field_start :: nat
  field_end :: nat
  field_type :: "field_kind option"

text \<open>
  \<open>NachaField.__init__(name, start, end)\<close>: the 1-based inclusive range becomes the
  0-based half-open range \<open>[start - 1, end)\<close>.  Every layout below has \<open>1 \<le> start\<close>.
\<close>

definition mkField :: "string \<Rightarrow> nat \<Rightarrow> nat \<Rightarrow> NachaField" where
  "mkField name start end' =
     \<lparr>field_name = name, field_start = start - 1, field_end = end', field_type = None\<rparr>"

definition setType :: "field_kind \<Rightarrow> NachaField \<Rightarrow> NachaField" where
  "setType t f = f\<lparr>field_type := Some t\<rparr>"

fun PADDING_FUNCTION :: "field_kind \<Rightarrow> string \<Rightarrow> nat \<Rightarrow> char \<Rightarrow> string" where
  "PADDING_FUNCTION NUMERIC = rjust"
| "PADDING_FUNCTION ALPHAMERIC = ljust"
| "PADDING_FUNCTION ROUTING = rjust"

fun PADDING_CHAR :: "field_kind \<Rightarrow> char" where
  "PADDING_CHAR NUMERIC = CHR ''0''"
| "PADDING_CHAR ALPHAMERIC = CHR '' ''"
| "PADDING_CHAR ROUTING = CHR '' ''"

type_synonym layout = "(string \<times> NachaField) list"

text \<open>
  A record object: its class name (used in error messages), the lock flag, the field
  dictionary and the bytearray.
\<close>

record NachaRecord =
  cls :: string
  locked :: bool
  fields_of :: layout
  data :: string

definition new_record :: "string \<Rightarrow> layout \<Rightarrow> NachaRecord" where
  "new_record c fs = \<lparr>cls = c, locked = False, fields_of = fs, data = replicate 94 CHR '' ''\<rparr>"

definition lock :: "NachaRecord \<Rightarrow> NachaRecord" where
  "lock r = r\<lparr>locked := True\<rparr>"

definition locked_msg :: string where
  "locked_msg = ''Cannot set values on a locked record.''"

definition undefined_msg :: "string \<Rightarrow> string \<Rightarrow> string" where
  "undefined_msg fieldName c = fieldName @ '' isn'' @ [CHR 0x27] @ ''t defined in '' @ c @ ''.''"

text \<open>The text written by \<open>setValue\<close>: padded when the field has a type, then cut to the width.\<close>

definition field_text :: "NachaField \<Rightarrow> pyval \<Rightarrow> string" where
  "field_text field val =
     (let start = field_start field; end' = field_end field;
          v = (case field_type field of
                 None \<Rightarrow> str val
               | Some t \<Rightarrow> PADDING_FUNCTION t (str val) (end' - start) (PADDING_CHAR t))
      in take (end' - start) v)"

text \<open>
  \<open>NachaRecord.setValue\<close>.  The result is the raised error, if any, and the record as
  the call leaves it.
\<close>

definition setValue :: "string \<Rightarrow> pyval \<Rightarrow> NachaRecord \<Rightarrow> error option \<times> NachaRecord" where
  "setValue fieldName val r =
     (if locked r then (Some (NachaError locked_msg), r)
      else case map_of (fields_of r) fieldName of
        Some field \<Rightarrow>
          (None, r\<lparr>data := set_slice (field_start field) (field_end field)
                              (field_text field val) (data r)\<rparr>)
      | None \<Rightarrow> (Some (NachaError (undefined_msg fieldName (cls r))), r))"

definition getValue :: "string \<Rightarrow> NachaRecord \<Rightarrow> error + string" where
  "getValue fieldName r =
     (case map_of (fields_of r) fieldName of
        Some field \<Rightarrow> Inr (get_slice (field_start field) (field_end field) (data r))
      | None \<Rightarrow> Inl (NachaError (undefined_msg fieldName (cls r))))"


text \<open>Statements in sequence: the first error ends the run and the state stays as it is then.\<close>

fun run :: "('s \<Rightarrow> error option \<times> 's) list \<Rightarrow> 's \<Rightarrow> error option \<times> 's" where
  "run [] s = (None, s)"
| "run (f # fs) s = (case f s of (Some e, s') \<Rightarrow> (Some e, s') | (None, s') \<Rightarrow> run fs s')"

text \<open>The field dictionary after the \<open>setType\<close> calls of a constructor.\<close>

definition typed :: "(string \<times> field_kind) list \<Rightarrow> layout \<Rightarrow> layout" where
  "typed ts fs =
     map (\<lambda>(k, f). (k, case map_of ts k of None \<Rightarrow> f | Some t \<Rightarrow> setType t f)) fs"


section \<open>The five record layouts\<close>

definition NachaFileHeader_fields :: layout where
  "NachaFileHeader_fields = typed
     [(''priorityCode'', NUMERIC), (''destination'', ROUTING), (''origin'', ROUTING),
      (''destinationName'', ALPHAMERIC), (''originName'', ALPHAMERIC), (''refCode'', ALPHAMERIC)]
     [(''recordType'', mkField ''Record Type'' 1 1),
      (''priorityCode'', mkField ''Priority Code'' 2 3),
      (''destination'', mkField ''Immediate Destination'' 4 13),
      (''origin'', mkField ''Immediate Origin'' 14 23),
      (''creationDate'', mkField ''File Creation Date'' 24 29),
      (''creationTime'', mkField ''File Creation Time'' 30 33),
      (''fileIdModifier'', mkField ''File ID Modifier'' 34 34),
      (''recordSize'', mkField ''Record Size'' 35 37),
      (''blockingFactor'', mkField ''Blocking Factor'' 38 39),
      (''formatCode'', mkField ''Format Code'' 40 40),
      (''destinationName'', mkField ''Immediate Destination Name'' 41 63),
      (''originName'', mkField ''Immediate Origin Name'' 64 86),
      (''refCode'', mkField ''Reference Code'' 87 94)]"

definition NachaFileControl_fields :: layout where
  "NachaFileControl_fields = typed
     [(''batchCount'', NUMERIC), (''blockCount'', NUMERIC), (''entryCount'', NUMERIC),
      (''entryHash'', NUMERIC), (''debitAmount'', NUMERIC), (''creditAmount'', NUMERIC)]
     [(''recordType'', mkField ''Record Type'' 1 1),
      (''batchCount'', mkField ''Batch Count'' 2 7),
      (''blockCount'', mkField ''Block Count'' 8 13),
      (''entryCount'', mkField ''Entry Count'' 14 21),
      (''entryHash'', mkField ''Entry Hash'' 22 31),
      (''debitAmount'', mkField ''Total Debit Amount'' 32 43),
      (''creditAmount'', mkField ''Total Credit Amount'' 44 55),
      (''reserved'', mkField ''Reserved'' 56 94)]"

definition NachaBatchHeader_fields :: layout where
  "NachaBatchHeader_fields = typed
     [(''serviceCode'', NUMERIC), (''companyName'', ALPHAMERIC), (''companyData'', ALPHAMERIC),
      (''companyId'', ALPHAMERIC), (''entryClassCode'', ALPHAMERIC),
      (''entryDescription'', ALPHAMERIC), (''descriptiveDate'', ALPHAMERIC),
      (''settlementDate'', NUMERIC), (''odfiId'', ALPHAMERIC), (''batchNumber'', NUMERIC)]
     [(''recordType'', mkField ''Record Type'' 1 1),
      (''serviceCode'', mkField ''Service Class Code'' 2 4),
      (''companyName'', mkField ''Company Name'' 5 20),
      (''companyData'', mkField ''Company Discretionary Date'' 21 40),
      (''companyId'', mkField ''Company Identification'' 41 50),
      (''entryClassCode'', mkField ''Standard Entry Class Code'' 51 53),
      (''entryDescription'', mkField ''Company Entry Description'' 54 63),
      (''descriptiveDate'', mkField ''Company Descriptive Date'' 64 69),
      (''entryDate'', mkField ''Effective Entry Date'' 70 75),
      (''settlementDate'', mkField ''Settlement Date'' 76 78),
      (''originatorCode'', mkField ''Originator Status Code'' 79 79),
      (''odfiId'', mkField ''Originating DFI Identification'' 80 87),
      (''batchNumber'', mkField ''Batch Number'' 88 94)]"

definition NachaBatchControl_fields :: layout where
  "NachaBatchControl_fields = typed
     [(''serviceCode'', NUMERIC), (''entryCount'', NUMERIC), (''entryHash'', NUMERIC),
      (''debitAmount'', NUMERIC), (''creditAmount'', NUMERIC), (''companyId'', ALPHAMERIC),
      (''authCode'', ALPHAMERIC), (''batchNumber'', NUMERIC)]
     [(''recordType'', mkField ''Record Type'' 1 1),
      (''serviceCode'', mkField ''Service Class Code'' 2 4),
      (''entryCount'', mkField ''Entry/Addenda Count'' 5 10),
      (''entryHash'', mkField ''Entry Hash'' 11 20),
      (''debitAmount'', mkField ''Total Debit Entry Dollar Amount'' 21 32),
      (''creditAmount'', mkField ''Total Credit Entry Dollar Amount'' 33 44),
      (''companyId'', mkField ''Company Identification'' 45 54),
      (''authCode'', mkField ''Message Authentication Code'' 55 73),
      (''reserved'', mkField ''Reserved'' 74 79),
      (''odfiId'', mkField ''Originating DFI Identification'' 80 87),
      (''batchNumber'', mkField ''Batch Number'' 88 94)]"

definition NachaEntry_fields :: layout where
  "NachaEntry_fields = typed
     [(''transactionCode'', NUMERIC), (''checkDigit'', NUMERIC), (''idNumber'', ALPHAMERIC),
      (''dfiAccountNumber'', ALPHAMERIC), (''amount'', NUMERIC), (''name'', ALPHAMERIC),
      (''data'', ALPHAMERIC), (''addenda'', NUMERIC), (''traceNumber'', NUMERIC),
      (''sequenceNumber'', NUMERIC)]
     [(''recordType'', mkField ''Record Type'' 1 1),
      (''transactionCode'', mkField ''Transaction Code'' 2 3),
      (''rdfiId'', mkField ''Receiving DFI Identification'' 4 11),
      (''checkDigit'', mkField ''Check Digit'' 12 12),
      (''dfiAccountNumber'', mkField ''DFI Account Number'' 13 29),
      (''amount'', mkField ''Amonut'' 30 39),
      (''idNumber'', mkField ''Individual Identification Number'' 40 54),
      (''name'', mkField ''Individual Name'' 55 76),
      (''data'', mkField ''Discretionary Data'' 77 78),
      (''addenda'', mkField ''Addenda Record Indicator'' 79 79),
      (''traceNumber'', mkField ''Trace Number'' 80 94),
      (''odfiId'', mkField ''Trace Number - Originating DFI Identification'' 80 88),
      (''sequenceNumber'', mkField ''Trace Number - Sequence Number'' 88 94)]"

text \<open>
  The constructors.  The clock is outside the model: the formatted creation date and
  time (\<open>%y%m%d\<close>, \<open>%H%M\<close>) are parameters.
\<close>

definition NachaFileHeader :: "string \<Rightarrow> string \<Rightarrow> pyval \<Rightarrow> error option \<times> NachaRecord" where
  "NachaFileHeader creationDate creationTime fileIdModifier =
     run [setValue ''recordType'' (S ''1''),
          setValue ''priorityCode'' (S ''01''),
          setValue ''creationDate'' (S creationDate),
          setValue ''creationTime'' (S creationTime),
          setValue ''recordSize'' (S ''094''),
          setValue ''blockingFactor'' (S ''10''),
          setValue ''formatCode'' (S ''1''),
          setValue ''refCode'' (S ''C4 TECH''),
          setValue ''fileIdModifier'' fileIdModifier]
       (new_record ''NachaFileHeader'' NachaFileHeader_fields)"

definition NachaFileControl :: "error option \<times> NachaRecord" where
  "NachaFileControl =
     setValue ''recordType'' (S ''9'') (new_record ''NachaFileControl'' NachaFileControl_fields)"

definition NachaBatchHeader :: "error option \<times> NachaRecord" where
  "NachaBatchHeader =
     setValue ''recordType'' (S ''5'') (new_record ''NachaBatchHeader'' NachaBatchHeader_fields)"

definition NachaBatchControl :: "error option \<times> NachaRecord" where
  "NachaBatchControl =
     setValue ''recordType'' (S ''8'') (new_record ''NachaBatchControl'' NachaBatchControl_fields)"

definition MIXED_SERVICE :: string where "MIXED_SERVICE = ''200''"
definition CREDITS_ONLY_SERVICE :: string where "CREDITS_ONLY_SERVICE = ''220''"
definition DEBITS_ONLY_SERVICE :: string where "DEBITS_ONLY_SERVICE = ''225''"


section \<open>Entry detail records\<close>

definition CHECK_DIGIT_WEIGHTS :: "int list" where
  "CHECK_DIGIT_WEIGHTS = [3, 7, 1, 3, 7, 1, 3, 7]"

text \<open>
  \<open>NachaEntry.calculateCheckDigit\<close>: every character of the routing field is converted
  with \<open>int\<close> (a \<open>ValueError\<close> when one is no digit), then weighted and summed.
\<close>

definition calculateCheckDigit :: "NachaRecord \<Rightarrow> error + int" where
  "calculateCheckDigit r =
     (case getValue ''rdfiId'' r of
        Inl e \<Rightarrow> Inl e
      | Inr rdfiId \<Rightarrow>
          (case those (map (\<lambda>c. py_int [c]) rdfiId) of
             None \<Rightarrow> Inl ValueError
           | Some rdfiList \<Rightarrow>
               let total = sum_list (map (\<lambda>(x, y). x * y) (zip CHECK_DIGIT_WEIGHTS rdfiList));
                   nextTen = total + (10 - total mod 10)
               in Inr (nextTen - total)))"

text \<open>
  \<open>NachaEntry.setValue\<close>: the inherited write, then, for \<open>rdfiId\<close>, the check digit.
  An error raised after the first write leaves that write in place.
\<close>

definition NachaEntry_setValue :: "string \<Rightarrow> pyval \<Rightarrow> NachaRecord \<Rightarrow> error option \<times> NachaRecord" where
  "NachaEntry_setValue fieldName val r =
     (case setValue fieldName val r of
        (Some e, r') \<Rightarrow> (Some e, r')
      | (None, r') \<Rightarrow>
          if fieldName = ''rdfiId'' then
            (case calculateCheckDigit r' of
               Inl e \<Rightarrow> (Some e, r')
             | Inr d \<Rightarrow> setValue ''checkDigit'' (I d) r')
          else (None, r'))"

definition NachaEntry ::
  "pyval \<Rightarrow> pyval \<Rightarrow> pyval \<Rightarrow> pyval \<Rightarrow> pyval \<Rightarrow> pyval \<Rightarrow> error option \<times> NachaRecord" where
  "NachaEntry transCode rdfiId dfiActNum amount id' name =
     run [NachaEntry_setValue ''recordType'' (S ''6''),
          NachaEntry_setValue ''addenda'' (S ''0''),
          NachaEntry_setValue ''transactionCode'' transCode,
          NachaEntry_setValue ''rdfiId'' rdfiId,
          NachaEntry_setValue ''dfiAccountNumber'' dfiActNum,
          NachaEntry_setValue ''amount'' amount,
          NachaEntry_setValue ''idNumber'' id',
          NachaEntry_setValue ''name'' name]
       (new_record ''NachaEntry'' NachaEntry_fields)"


section \<open>Batches\<close>

text \<open>
  Entry objects are shared between the caller and the batches that hold them, so they
  live in a store, addressed by object identity; a batch holds the addresses of its
  entries.  Header and control records are created by the batch and belong to it alone.
\<close>

type_synonym store = "nat \<Rightarrow> NachaRecord"

record NachaBatch =
  finalized :: bool
  entries :: "nat list"
  batchHeader :: NachaRecord
  batchControl :: NachaRecord

definition on_header ::
  "(NachaRecord \<Rightarrow> error option \<times> NachaRecord) \<Rightarrow> NachaBatch \<Rightarrow> error option \<times> NachaBatch" where
  "on_header f b = (case f (batchHeader b) of (e, r) \<Rightarrow> (e, b\<lparr>batchHeader := r\<rparr>))"

definition on_control ::
  "(NachaRecord \<Rightarrow> error option \<times> NachaRecord) \<Rightarrow> NachaBatch \<Rightarrow> error option \<times> NachaBatch" where
  "on_control f b = (case f (batchControl b) of (e, r) \<Rightarrow> (e, b\<lparr>batchControl := r\<rparr>))"

definition setDualField :: "string \<Rightarrow> pyval \<Rightarrow> NachaBatch \<Rightarrow> error option \<times> NachaBatch" where
  "setDualField fieldName val =
     run [on_header (setValue fieldName val), on_control (setValue fieldName val)]"

text \<open>
  \<open>NachaBatch.__init__\<close>.  The formatted dates (\<open>%b %y\<close> of today, \<open>%y%m%d\<close> of the
  effective date moved off the weekend) come from the calendar and are parameters.
\<close>

definition NachaBatch ::
  "string \<Rightarrow> string \<Rightarrow> pyval \<Rightarrow> pyval \<Rightarrow> pyval \<Rightarrow> pyval \<Rightarrow> pyval \<Rightarrow> pyval
     \<Rightarrow> error option \<times> NachaBatch" where
  "NachaBatch descriptiveDate entryDate serviceCode classCode companyName description
       companyId odfiId =
     run [setDualField ''serviceCode'' serviceCode,
          on_header (setValue ''entryClassCode'' classCode),
          on_header (setValue ''companyName'' companyName),
          on_header (setValue ''entryDescription'' description),
          on_header (setValue ''descriptiveDate'' (S descriptiveDate)),
          on_header (setValue ''entryDate'' (S entryDate)),
          setDualField ''companyId'' companyId,
          setDualField ''odfiId'' odfiId]
       \<lparr>finalized = False, entries = [],
        batchHeader = snd NachaBatchHeader, batchControl = snd NachaBatchControl\<rparr>"

definition batch_finalized_msg :: string where
  "batch_finalized_msg = ''Entries cannot be added after the batch has been finalized.''"

text \<open>
  \<open>NachaBatch.addEntry\<close>: the result is the error, the batch and the store as the call
  leaves them.
\<close>

definition addEntry :: "nat \<Rightarrow> NachaBatch \<Rightarrow> store \<Rightarrow> error option \<times> NachaBatch \<times> store" where
  "addEntry entry b st =
     (if \<not> finalized b then
        (case getValue ''odfiId'' (batchHeader b) of
           Inl e \<Rightarrow> (Some e, b, st)
         | Inr odfi \<Rightarrow>
             (case NachaEntry_setValue ''odfiId'' (S odfi) (st entry) of
                (Some e, r1) \<Rightarrow> (Some e, b, st(entry := r1))
              | (None, r1) \<Rightarrow>
                  (case NachaEntry_setValue ''sequenceNumber''
                          (I (int (length (entries b)) + 1)) r1 of
                     (Some e, r2) \<Rightarrow> (Some e, b, st(entry := r2))
                   | (None, r2) \<Rightarrow>
                       (None, b\<lparr>entries := entries b @ [entry]\<rparr>, st(entry := lock r2)))))
      else (Some (NachaError batch_finalized_msg), b, st))"

definition getInt :: "string \<Rightarrow> NachaRecord \<Rightarrow> error + int" where
  "getInt fieldName r = (case getValue fieldName r of Inl e \<Rightarrow> Inl e | Inr s \<Rightarrow> int_of s)"

text \<open>
  The loop of \<open>NachaBatch.finalize\<close> over the entries, on the accumulators
  \<open>(entryHash, debitAmount, creditAmount)\<close>.
\<close>

fun batch_totals ::
  "string \<Rightarrow> store \<Rightarrow> nat list \<Rightarrow> int \<times> int \<times> int \<Rightarrow> error + (int \<times> int \<times> int)" where
  "batch_totals serviceCode st [] acc = Inr acc"
| "batch_totals serviceCode st (entry # rest) (entryHash, debitAmount, creditAmount) =
     (case getInt ''rdfiId'' (st entry) of
        Inl e \<Rightarrow> Inl e
      | Inr r \<Rightarrow>
          (case (if serviceCode \<in> set [DEBITS_ONLY_SERVICE, MIXED_SERVICE]
                 then (case getInt ''amount'' (st entry) of
                         Inl e \<Rightarrow> Inl e | Inr a \<Rightarrow> Inr (debitAmount + a))
                 else Inr debitAmount) of
             Inl e \<Rightarrow> Inl e
           | Inr debitAmount' \<Rightarrow>
               (case (if serviceCode \<in> set [CREDITS_ONLY_SERVICE, MIXED_SERVICE]
                      then (case getInt ''amount'' (st entry) of
                              Inl e \<Rightarrow> Inl e | Inr a \<Rightarrow> Inr (creditAmount + a))
                      else Inr creditAmount) of
                  Inl e \<Rightarrow> Inl e
                | Inr creditAmount' \<Rightarrow>
                    batch_totals serviceCode st rest
                      (entryHash + r, debitAmount', creditAmount'))))"

definition NachaBatch_finalize :: "pyval \<Rightarrow> store \<Rightarrow> NachaBatch \<Rightarrow> error option \<times> NachaBatch" where
  "NachaBatch_finalize batchNumber st b =
     (if finalized b then (None, b)
      else
        run [setDualField ''batchNumber'' batchNumber,
             on_control (setValue ''entryCount'' (I (int (length (entries b))))),
             (\<lambda>b. case getValue ''serviceCode'' (batchHeader b) of
                     Inl e \<Rightarrow> (Some e, b)
                   | Inr serviceCode \<Rightarrow>
                       (case batch_totals serviceCode st (entries b) (0, 0, 0) of
                          Inl e \<Rightarrow> (Some e, b)
                        | Inr (entryHash, debitAmount, creditAmount) \<Rightarrow>
                            run [on_control (setValue ''entryHash''
                                               (I (entryHash mod 10000000000))),
                                 on_control (setValue ''creditAmount'' (I creditAmount)),
                                 on_control (setValue ''debitAmount'' (I debitAmount)),
                                 (\<lambda>b. (None, b\<lparr>batchHeader := lock (batchHeader b),
                                                batchControl := lock (batchControl b),
                                                finalized := True\<rparr>))] b))] b)"



section \<open>Files\<close>

text \<open>
  A batch is finalized when it enters a file: its records and its entries are locked
  from then on, so the file holds it by value.
\<close>

record NachaFile =
  file_finalized :: bool
  batches :: "NachaBatch list"
  nineFill :: string
  fileHeader :: NachaRecord
  fileControl :: NachaRecord

definition on_fileHeader ::
  "(NachaRecord \<Rightarrow> error option \<times> NachaRecord) \<Rightarrow> NachaFile \<Rightarrow> error option \<times> NachaFile" where
  "on_fileHeader g f = (case g (fileHeader f) of (e, r) \<Rightarrow> (e, f\<lparr>fileHeader := r\<rparr>))"

definition on_fileControl ::
  "(NachaRecord \<Rightarrow> error option \<times> NachaRecord) \<Rightarrow> NachaFile \<Rightarrow> error option \<times> NachaFile" where
  "on_fileControl g f = (case g (fileControl f) of (e, r) \<Rightarrow> (e, f\<lparr>fileControl := r\<rparr>))"

definition NachaFile ::
  "string \<Rightarrow> string \<Rightarrow> pyval \<Rightarrow> pyval \<Rightarrow> pyval \<Rightarrow> pyval \<Rightarrow> pyval \<Rightarrow> error option \<times> NachaFile" where
  "NachaFile creationDate creationTime modifier destination destinationName origin originName =
     run [on_fileHeader (setValue ''destination'' destination),
          on_fileHeader (setValue ''origin'' origin),
          on_fileHeader (setValue ''destinationName'' destinationName),
          on_fileHeader (setValue ''originName'' originName)]
       \<lparr>file_finalized = False, batches = [], nineFill = [],
        fileHeader = snd (NachaFileHeader creationDate creationTime modifier),
        fileControl = snd NachaFileControl\<rparr>"


definition file_finalized_msg :: string where
  "file_finalized_msg = ''Batches cannot be added after the file is finalized.''"

text \<open>\<open>NachaFile.addBatch\<close>: the error, the file and the batch as the call leaves them.\<close>

definition addBatch ::
  "NachaBatch \<Rightarrow> store \<Rightarrow> NachaFile \<Rightarrow> error option \<times> NachaFile \<times> NachaBatch" where
  "addBatch batch st f =
     (if \<not> file_finalized f then
        (case NachaBatch_finalize (I (int (length (batches f)) + 1)) st batch of
           (Some e, batch') \<Rightarrow> (Some e, f, batch')
         | (None, batch') \<Rightarrow> (None, f\<lparr>batches := batches f @ [batch']\<rparr>, batch'))
      else (Some (NachaError file_finalized_msg), f, batch))"

text \<open>
  The loop of \<open>NachaFile.finalize\<close> over the batches, on the accumulators
  \<open>(entryCount, entryHash, debitAmount, creditAmount)\<close>.
\<close>

fun file_totals ::
  "NachaBatch list \<Rightarrow> int \<times> int \<times> int \<times> int \<Rightarrow> error + (int \<times> int \<times> int \<times> int)" where
  "file_totals [] acc = Inr acc"
| "file_totals (batch # rest) (entryCount, entryHash, debitAmount, creditAmount) =
     (case getInt ''entryCount'' (batchControl batch) of
        Inl e \<Rightarrow> Inl e
      | Inr n \<Rightarrow>
     (case getInt ''entryHash'' (batchControl batch) of
        Inl e \<Rightarrow> Inl e
      | Inr h \<Rightarrow>
     (case getInt ''debitAmount'' (batchControl batch) of
        Inl e \<Rightarrow> Inl e
      | Inr d \<Rightarrow>
     (case getInt ''creditAmount'' (batchControl batch) of
        Inl e \<Rightarrow> Inl e
      | Inr c \<Rightarrow>
          file_totals rest (entryCount + n, entryHash + h, debitAmount + d, creditAmount + c)))))"

text \<open>
  The block count and the filler of \<open>NachaFile.finalize\<close>.  In Python 2 the quotient
  \<open>recordCount / blockingFactor\<close> of two integers is the floor division, which
  \<open>floor\<close> and \<open>int\<close> leave as it is (for quotients below \<open>2 ^ 53\<close>).
\<close>

definition set_blocks :: "int \<Rightarrow> NachaFile \<Rightarrow> error option \<times> NachaFile" where
  "set_blocks entryCount f =
     (case getInt ''blockingFactor'' (fileHeader f) of
        Inl e \<Rightarrow> (Some e, f)
      | Inr blockingFactor \<Rightarrow>
          let recordCount = 2 + (int (length (batches f)) * 2) + entryCount
          in if blockingFactor = 0 then (Some ZeroDivisionError, f)
             else
               let blockCount = recordCount div blockingFactor;
                   blockMod = recordCount mod blockingFactor
               in if blockMod \<noteq> 0 then
                    on_fileControl (setValue ''blockCount'' (I (blockCount + 1)))
                      (f\<lparr>nineFill := join NACHA_EOL
                           (replicate (nat (blockingFactor - blockMod))
                              (replicate 94 CHR ''9''))\<rparr>)
                  else on_fileControl (setValue ''blockCount'' (I blockCount)) f)"

definition NachaFile_finalize :: "NachaFile \<Rightarrow> error option \<times> NachaFile" where
  "NachaFile_finalize f =
     (if file_finalized f then (None, f)
      else
        run [on_fileControl (setValue ''batchCount'' (I (int (length (batches f))))),
             (\<lambda>f. case file_totals (batches f) (0, 0, 0, 0) of
                     Inl e \<Rightarrow> (Some e, f)
                   | Inr (entryCount, entryHash, debitAmount, creditAmount) \<Rightarrow>
                       run [on_fileControl (setValue ''entryCount'' (I entryCount)),
                            on_fileControl (setValue ''entryHash''
                                              (I (entryHash mod 10000000000))),
                            on_fileControl (setValue ''debitAmount'' (I debitAmount)),
                            on_fileControl (setValue ''creditAmount'' (I creditAmount)),
                            set_blocks entryCount,
                            (\<lambda>f. (None, f\<lparr>fileHeader := lock (fileHeader f),
                                           fileControl := lock (fileControl f),
                                           file_finalized := True\<rparr>))] f)] f)"




definition dval :: "string \<Rightarrow> int" where
  "dval cs = foldl (\<lambda>a c. 10 * a + the (digit_val c)) 0 cs"


text \<open>Every range of a layout lies inside the 94 bytes and is not empty.\<close>

definition layout_ok :: "layout \<Rightarrow> bool" where
  "layout_ok L = list_all (\<lambda>(n, f). field_start f < field_end f \<and> field_end f \<le> 94) L"


text \<open>A store in which every address holds a blank, unlocked entry record.\<close>

definition blank_store :: store where
  "blank_store = (\<lambda>_. new_record ''NachaEntry'' NachaEntry_fields)"

text \<open>The buffer of the entry of the examples: a checking credit of 10000 to routing number 07640125.\<close>

definition entry_data :: string where
  "entry_data = ''62207640125112345678         0000010000ID0001         JOHN DOE                0               ''"

text \<open>The entry of the examples, as its constructor leaves it.\<close>

definition entry0 :: NachaRecord where
  "entry0 = \<lparr>cls = ''NachaEntry'', locked = False, fields_of = NachaEntry_fields,
             data = entry_data\<rparr>"


text \<open>The entries held by the batches, in order.\<close>

definition held :: "NachaBatch list \<Rightarrow> nat list" where
  "held bs = concat (map entries bs)"

text \<open>
  The objects of a program run: its batches and the store of its entries.  A step is
  one call of the interface on them; a new entry is an object no batch holds yet.
\<close>

inductive step :: "NachaBatch list \<times> store \<Rightarrow> NachaBatch list \<times> store \<Rightarrow> bool" where
  new_batch:
    "NachaBatch dd ed sc cc cn de ci oi = (None, b) \<Longrightarrow> step (bs, st) (bs @ [b], st)"
| new_entry:
    "e \<notin> set (held bs) \<Longrightarrow> NachaEntry tc rd da am idn nm = (err, r) \<Longrightarrow>
     step (bs, st) (bs, st(e := r))"
| set_value:
    "NachaEntry_setValue n v (st e) = (err, r) \<Longrightarrow> step (bs, st) (bs, st(e := r))"
| lock_entry:
    "step (bs, st) (bs, st(e := lock (st e)))"
| set_dual_field:
    "i < length bs \<Longrightarrow> setDualField n v (bs ! i) = (err, b') \<Longrightarrow> step (bs, st) (bs[i := b'], st)"
| add_entry:
    "i < length bs \<Longrightarrow> addEntry e (bs ! i) st = (err, b', st') \<Longrightarrow>
     step (bs, st) (bs[i := b'], st')"
| finalize:
    "i < length bs \<Longrightarrow> NachaBatch_finalize n st (bs ! i) = (err, b') \<Longrightarrow>
     step (bs, st) (bs[i := b'], st)"

text \<open>
  No entry is held twice, every entry held by a batch is locked, and every batch header
  has the batch header layout.
\<close>

definition batches_inv :: "NachaBatch list \<times> store \<Rightarrow> bool" where
  "batches_inv s =
     (case s of (bs, st) \<Rightarrow>
        distinct (held bs) \<and>
        (\<forall>e \<in> set (held bs). locked (st e)) \<and>
        (\<forall>b \<in> set bs. fields_of (batchHeader b) = NachaBatchHeader_fields))"


text \<open>The batch of the examples as its constructor leaves it: credits only, no entries yet.\<close>

definition batch0 :: NachaBatch where
  "batch0 = \<lparr>finalized = False, entries = [],
     batchHeader = \<lparr>cls = ''NachaBatchHeader'', locked = False, fields_of = NachaBatchHeader_fields,
       data = ''5220ACME CORP                           1234567890PPDPAYROLL   Jan 26260105    07640125       ''\<rparr>,
     batchControl = \<lparr>cls = ''NachaBatchControl'', locked = False, fields_of = NachaBatchControl_fields,
       data = ''8220                                        1234567890                         07640125       ''\<rparr>\<rparr>"


text \<open>An unlocked record of layout \<open>L\<close> with all its 94 bytes.\<close>

definition std :: "layout \<Rightarrow> NachaRecord \<Rightarrow> bool" where
  "std L r \<longleftrightarrow> \<not> locked r \<and> fields_of r = L \<and> length (data r) = 94"

text \<open>The text a NUMERIC field of width \<open>w\<close> holds after the integer \<open>i\<close> is written to it.\<close>

definition numtext :: "nat \<Rightarrow> int \<Rightarrow> string" where
  "numtext w i = take w (rjust (str_int i) w CHR ''0'')"

text \<open>A locked entry of the largest amount a ten-digit field holds, and a store of such entries.\<close>

definition entry_max :: NachaRecord where
  "entry_max = \<lparr>cls = ''NachaEntry'', locked = True, fields_of = NachaEntry_fields,
     data = ''62207640125112345678         9999999999ID0001         JOHN DOE                0076401250000001''\<rparr>"

definition max_store :: store where
  "max_store = (\<lambda>_. entry_max)"

text \<open>The credits-only batch of the examples holding 101 such entries.\<close>

definition batch101 :: NachaBatch where
  "batch101 = batch0\<lparr>entries := [0..<101]\<rparr>"


text \<open>The file of the examples as its constructor leaves it.\<close>

definition file0 :: NachaFile where
  "file0 = \<lparr>file_finalized = False, batches = [], nineFill = [],
      fileHeader = \<lparr>cls = ''NachaFileHeader'', locked = False, fields_of = NachaFileHeader_fields,
        data = ''101 123456789 9876543212601011200A094101BANK                   ACME                   C4 TECH ''\<rparr>,
      fileControl = \<lparr>cls = ''NachaFileControl'', locked = False, fields_of = NachaFileControl_fields,
        data = ''9                                                                                             ''\<rparr>\<rparr>"

text \<open>The file of the examples after the batch of the examples, without entries, was added.\<close>

definition file_one :: NachaFile where
  "file_one = fst (snd (addBatch batch0 blank_store file0))"

text \<open>
  Two credits-only batches of 100 entries of 9999999999 each, and the file of the examples
  after both were added.
\<close>

definition batchA :: NachaBatch where
  "batchA = batch0\<lparr>entries := [0..<100]\<rparr>"

definition batchB :: NachaBatch where
  "batchB = batch0\<lparr>entries := [100..<200]\<rparr>"

definition file_two :: NachaFile where
  "file_two = fst (snd (addBatch batchB max_store (fst (snd (addBatch batchA max_store file0)))))"








section \<open>Properties of slices\<close>

lemma length_set_slice:
  "length (set_slice s e v xs) = min s (length xs) + length v + (length xs - max s e)"
  by (simp add: set_slice_def min_def)

lemma length_set_slice_same:
  "s \<le> e \<Longrightarrow> e \<le> length xs \<Longrightarrow> length v = e - s \<Longrightarrow> length (set_slice s e v xs) = length xs"
  by (simp add: length_set_slice)

lemma length_set_slice_le:
  "s \<le> e \<Longrightarrow> length v \<le> e - s \<Longrightarrow> length xs \<le> n \<Longrightarrow> e \<le> n \<Longrightarrow> length (set_slice s e v xs) \<le> n"
  by (auto simp add: length_set_slice min_def max_def)

lemma get_set_slice_same:
  "s \<le> length xs \<Longrightarrow> length v = e - s \<Longrightarrow> get_slice s e (set_slice s e v xs) = v"
  by (cases "s \<le> e") (simp_all add: get_slice_def set_slice_def)

lemma get_set_slice_before:
  "e' \<le> s \<Longrightarrow> s \<le> length xs \<Longrightarrow> get_slice s' e' (set_slice s e v xs) = get_slice s' e' xs"
  by (simp add: get_slice_def set_slice_def min_def)

lemma get_slice_append_right:
  "length A \<le> s \<Longrightarrow> get_slice s e (A @ B) = get_slice (s - length A) (e - length A) B"
  by (cases "length A \<le> e") (simp_all add: get_slice_def min_def)

lemma get_set_slice_after:
  assumes "e \<le> s'" "s \<le> e" "e \<le> length xs" "length v = e - s"
  shows "get_slice s' e' (set_slice s e v xs) = get_slice s' e' xs"
proof -
  have l1: "length (take s xs @ v) = e" using assms by simp
  have l2: "length (take e xs) = e" using assms by simp
  have "set_slice s e v xs = (take s xs @ v) @ drop e xs"
    using assms by (simp add: set_slice_def max_def)
  then have "get_slice s' e' (set_slice s e v xs) = get_slice (s' - e) (e' - e) (drop e xs)"
    using get_slice_append_right [of "take s xs @ v" s' e' "drop e xs"] l1 assms(1) by simp
  also have "\<dots> = get_slice s' e' (take e xs @ drop e xs)"
    using get_slice_append_right [of "take e xs" s' e' "drop e xs"] l2 assms(1) by simp
  finally show ?thesis by simp
qed

lemma length_get_slice:
  "e \<le> length xs \<Longrightarrow> length (get_slice s e xs) = e - s"
  by (simp add: get_slice_def)

section \<open>Properties of padding\<close>

lemma length_field_text_typed:
  "field_type f = Some t \<Longrightarrow> length (field_text f v) = field_end f - field_start f"
  by (cases t) (simp_all add: field_text_def Let_def rjust_def ljust_def)

lemma length_field_text_le:
  "length (field_text f v) \<le> field_end f - field_start f"
  by (simp add: field_text_def Let_def)

lemma length_field_text_untyped:
  "field_type f = None \<Longrightarrow> length (field_text f v) = min (length (str v)) (field_end f - field_start f)"
  by (simp add: field_text_def Let_def)


section \<open>Properties of the integer conversions\<close>

lemma digit_val_digit_char: "d < 10 \<Longrightarrow> digit_val (digit_char d) = Some (int d)"
  by (auto simp add: digit_val_def digit_char_def digit_chars_def less_Suc_eq eval_nat_numeral)

lemma digit_val_Some_iff: "digit_val c \<noteq> None \<longleftrightarrow> c \<in> set digit_chars"
  by (simp add: digit_val_def digit_chars_def)

lemma digit_not_space: "digit_val c \<noteq> None \<Longrightarrow> \<not> is_space c \<and> c \<noteq> CHR ''-'' \<and> c \<noteq> CHR ''+''"
  by (auto simp add: digit_val_def is_space_def split: if_splits)

lemma dval_snoc: "dval (cs @ [c]) = 10 * dval cs + the (digit_val c)"
  by (simp add: dval_def)

lemma dval_dec: "dval (dec n) = int n"
proof (induction n rule: dec.induct)
  case (1 n)
  show ?case
  proof (cases "n < 10")
    case True
    then show ?thesis
      by (subst dec.simps) (simp add: dval_def digit_val_digit_char)
  next
    case False
    have "int (10 * (n div 10) + n mod 10) = 10 * int (n div 10) + int (n mod 10)"
      by (simp only: of_nat_add of_nat_mult of_nat_numeral)
    then have e: "10 * int (n div 10) + int (n mod 10) = int n"
      by (simp only: mult_div_mod_eq)
    show ?thesis
      using 1 False e by (subst dec.simps) (simp add: dval_snoc digit_val_digit_char)
  qed
qed

lemma dec_digits: "c \<in> set (dec n) \<Longrightarrow> digit_val c \<noteq> None"
proof (induction n rule: dec.induct)
  case (1 n)
  from "1.prems" have "c \<in> set (if n < 10 then [digit_char n] else dec (n div 10) @ [digit_char (n mod 10)])"
    by (subst (asm) dec.simps) simp
  then show ?case
    using 1 by (auto simp add: digit_val_digit_char split: if_splits)
qed

lemma dec_nonempty: "dec n \<noteq> []"
  by (subst dec.simps) simp

lemma length_dec: "0 < w \<Longrightarrow> n < 10 ^ w \<Longrightarrow> length (dec n) \<le> w"
proof (induction n arbitrary: w rule: dec.induct)
  case (1 n)
  show ?case
  proof (cases "n < 10")
    case True
    then show ?thesis using "1.prems" by (subst dec.simps) simp
  next
    case False
    obtain w' where w: "w = Suc w'" using "1.prems"(1) by (cases w) auto
    have "0 < w'" using False "1.prems"(2) w by (cases w') auto
    moreover have "n div 10 < 10 ^ w'"
    proof -
      have "n < 10 ^ w' * 10" using "1.prems"(2) w by simp
      then show ?thesis by (rule less_mult_imp_div_less)
    qed
    ultimately have "length (dec (n div 10)) \<le> w'" using "1.IH" False by simp
    then show ?thesis using False w by (subst dec.simps) simp
  qed
qed

lemma dval_zeros: "dval (replicate k CHR ''0'' @ cs) = dval cs"
proof -
  have d0: "digit_val CHR ''0'' = Some 0" by (simp add: digit_val_def)
  have z: "foldl (\<lambda>a c. 10 * a + the (digit_val c)) 0 (replicate k CHR ''0'') = 0"
    by (induction k) (simp_all add: d0)
  show ?thesis by (simp add: dval_def z)
qed

lemma strip_no_space: "\<forall>c \<in> set s. \<not> is_space c \<Longrightarrow> strip s = s"
proof -
  assume a: "\<forall>c \<in> set s. \<not> is_space c"
  have "dropWhile is_space s = s" using a by (cases s) auto
  moreover have "dropWhile is_space (rev s) = rev s"
  proof (cases "rev s")
    case Nil
    then show ?thesis by simp
  next
    case (Cons x xs)
    then have "x \<in> set s" by (metis list.set_intros(1) set_rev)
    then show ?thesis using a Cons by simp
  qed
  ultimately show ?thesis by (simp add: strip_def)
qed

lemma py_int_digits:
  assumes "s \<noteq> []" "\<forall>c \<in> set s. digit_val c \<noteq> None"
  shows "py_int s = Some (dval s)"
proof -
  have "strip s = s" using assms(2) digit_not_space by (intro strip_no_space) blast
  moreover obtain c cs where s: "s = c # cs" using assms(1) by (cases s) auto
  moreover have "c \<noteq> CHR ''-''" "c \<noteq> CHR ''+''" using assms(2) s digit_not_space by auto
  moreover have "digits_val s = Some (dval s)" using assms by (auto simp add: digits_val_def dval_def)
  ultimately show ?thesis by (simp add: py_int_def)
qed

lemma py_int_padded_dec: "py_int (replicate k CHR ''0'' @ dec n) = Some (int n)"
proof -
  have d0: "digit_val CHR ''0'' = Some 0" by (simp add: digit_val_def)
  have "\<forall>c \<in> set (replicate k CHR ''0'' @ dec n). digit_val c \<noteq> None"
    using dec_digits d0 by auto
  then have "py_int (replicate k CHR ''0'' @ dec n) = Some (dval (replicate k CHR ''0'' @ dec n))"
    using dec_nonempty by (intro py_int_digits) auto
  then show ?thesis by (simp add: dval_zeros dval_dec)
qed

lemma field_text_numeric:
  assumes "field_type f = Some NUMERIC" "w = field_end f - field_start f" "0 < w" "0 \<le> i" "i < 10 ^ w"
  shows "field_text f (I i) = replicate (w - length (dec (nat i))) CHR ''0'' @ dec (nat i)"
proof -
  have "nat i < 10 ^ w" using assms(4,5) by (simp add: nat_less_iff)
  then have "length (dec (nat i)) \<le> w" using assms(3) length_dec by blast
  then show ?thesis using assms by (simp add: field_text_def Let_def rjust_def str_int_def)
qed

lemma int_of_field_text_numeric:
  assumes "field_type f = Some NUMERIC" "w = field_end f - field_start f" "0 < w" "0 \<le> i" "i < 10 ^ w"
  shows "int_of (field_text f (I i)) = Inr i"
  using assms by (simp add: field_text_numeric [OF assms] int_of_def py_int_padded_dec)


section \<open>Properties of records\<close>

lemmas layout_defs =
  NachaFileHeader_fields_def NachaFileControl_fields_def NachaBatchHeader_fields_def
  NachaBatchControl_fields_def NachaEntry_fields_def typed_def mkField_def setType_def

lemma layouts_ok:
  "layout_ok NachaFileHeader_fields" "layout_ok NachaFileControl_fields"
  "layout_ok NachaBatchHeader_fields" "layout_ok NachaBatchControl_fields"
  "layout_ok NachaEntry_fields"
  by (simp_all add: layout_ok_def layout_defs)

lemma layout_okD:
  "layout_ok L \<Longrightarrow> map_of L n = Some f \<Longrightarrow> field_start f < field_end f \<and> field_end f \<le> 94"
  by (auto simp add: layout_ok_def list_all_iff dest!: map_of_SomeD)

lemma setValue_unchanged:
  "fields_of (snd (setValue n v r)) = fields_of r"
  "locked (snd (setValue n v r)) = locked r"
  "cls (snd (setValue n v r)) = cls r"
  by (simp_all add: setValue_def split: option.splits)

lemma setValue_fails: "fst (setValue n v r) \<noteq> None \<Longrightarrow> snd (setValue n v r) = r"
  by (simp add: setValue_def split: option.splits if_splits)

lemma setValue_ok:
  "\<not> locked r \<Longrightarrow> map_of (fields_of r) n = Some f \<Longrightarrow>
   setValue n v r =
     (None, r\<lparr>data := set_slice (field_start f) (field_end f) (field_text f v) (data r)\<rparr>)"
  by (simp add: setValue_def)

lemma setValue_length_le:
  assumes "layout_ok (fields_of r)" "length (data r) \<le> 94"
  shows "length (data (snd (setValue n v r))) \<le> 94"
proof (cases "locked r \<or> map_of (fields_of r) n = None")
  case True
  then show ?thesis using assms(2) by (auto simp add: setValue_def)
next
  case False
  then obtain f where f: "map_of (fields_of r) n = Some f" and u: "\<not> locked r" by auto
  have "field_start f < field_end f \<and> field_end f \<le> 94" using layout_okD [OF assms(1) f] .
  then have "length (set_slice (field_start f) (field_end f) (field_text f v) (data r)) \<le> 94"
    using assms(2) length_field_text_le [of f v] by (intro length_set_slice_le) auto
  then show ?thesis using f u by (simp add: setValue_ok)
qed

lemma setValue_length_eq:
  assumes "layout_ok (fields_of r)" "length (data r) = 94"
    and "\<And>f. map_of (fields_of r) n = Some f \<Longrightarrow>
           field_type f \<noteq> None \<or> field_end f - field_start f \<le> length (str v)"
  shows "length (data (snd (setValue n v r))) = 94"
proof (cases "locked r \<or> map_of (fields_of r) n = None")
  case True
  then show ?thesis using assms(2) by (auto simp add: setValue_def)
next
  case False
  then obtain f where f: "map_of (fields_of r) n = Some f" and u: "\<not> locked r" by auto
  have r: "field_start f < field_end f \<and> field_end f \<le> 94" using layout_okD [OF assms(1) f] .
  have "length (field_text f v) = field_end f - field_start f"
    using assms(3) [OF f] length_field_text_typed [of f _ v] length_field_text_untyped [of f v]
    by (cases "field_type f") auto
  then have "length (set_slice (field_start f) (field_end f) (field_text f v) (data r)) = 94"
    using assms(2) r by (simp add: length_set_slice_same)
  then show ?thesis using f u by (simp add: setValue_ok)
qed

lemma NachaEntry_setValue_unchanged:
  "fields_of (snd (NachaEntry_setValue n v r)) = fields_of r"
  "locked (snd (NachaEntry_setValue n v r)) = locked r"
  "cls (snd (NachaEntry_setValue n v r)) = cls r"
  using setValue_unchanged [of n v r] setValue_unchanged [of "''checkDigit''" _ "snd (setValue n v r)"]
  by (auto simp add: NachaEntry_setValue_def split: prod.splits option.splits sum.splits)

lemma checkDigit_typed:
  "fields_of r = NachaEntry_fields \<Longrightarrow> map_of (fields_of r) ''checkDigit'' = Some f \<Longrightarrow> field_type f \<noteq> None"
  by (auto simp add: layout_defs)


lemma NachaEntry_setValue_length_le:
  assumes "layout_ok (fields_of r)" "length (data r) \<le> 94"
  shows "length (data (snd (NachaEntry_setValue n v r))) \<le> 94"
proof -
  let ?r1 = "snd (setValue n v r)"
  have 1: "length (data ?r1) \<le> 94" using assms by (rule setValue_length_le)
  have 2: "layout_ok (fields_of ?r1)" using assms(1) by (simp add: setValue_unchanged)
  have 3: "\<And>d. length (data (snd (setValue ''checkDigit'' d ?r1))) \<le> 94"
    using 2 1 by (rule setValue_length_le)
  show ?thesis
    using 1 3 by (auto simp add: NachaEntry_setValue_def split: prod.splits option.splits sum.splits)
qed

lemma NachaEntry_setValue_length_eq:
  assumes "layout_ok (fields_of r)" "length (data r) = 94"
    and "\<And>f. map_of (fields_of r) n = Some f \<Longrightarrow>
           field_type f \<noteq> None \<or> field_end f - field_start f \<le> length (str v)"
    and "\<And>f. map_of (fields_of r) ''checkDigit'' = Some f \<Longrightarrow> field_type f \<noteq> None"
  shows "length (data (snd (NachaEntry_setValue n v r))) = 94"
proof -
  let ?r1 = "snd (setValue n v r)"
  have 1: "length (data ?r1) = 94" using assms(1-3) by (rule setValue_length_eq)
  have 2: "layout_ok (fields_of ?r1)" using assms(1) by (simp add: setValue_unchanged)
  have 3: "length (data (snd (setValue ''checkDigit'' d ?r1))) = 94" for d
  proof (rule setValue_length_eq [OF 2 1])
    fix f assume "map_of (fields_of ?r1) ''checkDigit'' = Some f"
    then show "field_type f \<noteq> None \<or> field_end f - field_start f \<le> length (str d)"
      using assms(4) [of f] by (simp add: setValue_unchanged)
  qed
  show ?thesis
    using 1 3 by (auto simp add: NachaEntry_setValue_def split: prod.splits option.splits sum.splits)
qed

lemma five_layouts:
  assumes "L \<in> {NachaFileHeader_fields, NachaFileControl_fields, NachaBatchHeader_fields,
                 NachaBatchControl_fields, NachaEntry_fields}"
  shows "layout_ok L" and "map_of L ''checkDigit'' = Some f \<Longrightarrow> field_type f \<noteq> None"
  using assms layouts_ok by (auto simp add: layout_defs)

lemma setValue_shrinks:
  assumes "\<not> locked r" "map_of (fields_of r) n = Some f" "field_type f = None"
    "length (str v) < field_end f - field_start f" "field_end f \<le> length (data r)"
  shows "length (data (snd (setValue n v r))) =
           length (data r) - (field_end f - field_start f - length (str v))"
proof -
  have "length (field_text f v) = length (str v)"
    using assms(3,4) by (simp add: length_field_text_untyped)
  then show ?thesis
    using assms by (simp add: setValue_ok length_set_slice)
qed

text \<open>
  Where the 94 bytes are kept.  On a record of one of the five kinds no sequence of
  \<open>setValue\<close> calls makes the buffer longer than 94 bytes, and the buffer keeps its 94
  bytes as long as every value written to a field without a type is at least as long as
  the field's range; fields with a type are padded and cut to the width.
\<close>

lemma setValue_length_kept:
  assumes "fields_of r \<in> {NachaFileHeader_fields, NachaFileControl_fields,
             NachaBatchHeader_fields, NachaBatchControl_fields, NachaEntry_fields}"
    and "sv = setValue \<or> sv = NachaEntry_setValue"
  shows "(length (data r) \<le> 94 \<longrightarrow>
            length (data (foldl (\<lambda>r (n, v). snd (sv n v r)) r calls)) \<le> 94) \<and>
         (length (data r) = 94 \<and>
            (\<forall>(n, v) \<in> set calls. \<forall>f. map_of (fields_of r) n = Some f \<longrightarrow>
               field_type f \<noteq> None \<or> field_end f - field_start f \<le> length (str v)) \<longrightarrow>
            length (data (foldl (\<lambda>r (n, v). snd (sv n v r)) r calls)) = 94)"
proof (intro conjI impI)
  let ?L = "fields_of r"
  have ok: "layout_ok ?L" using assms(1) by (rule five_layouts(1))
  have cd: "\<And>f. map_of ?L ''checkDigit'' = Some f \<Longrightarrow> field_type f \<noteq> None"
    using assms(1) by (rule five_layouts(2))
  have keep: "\<And>n v r'. fields_of (snd (sv n v r')) = fields_of r'"
    using assms(2) by (auto simp add: setValue_unchanged NachaEntry_setValue_unchanged)
  have le: "\<And>n v r'. fields_of r' = ?L \<Longrightarrow> length (data r') \<le> 94 \<Longrightarrow>
              length (data (snd (sv n v r'))) \<le> 94"
    using assms(2) ok by (auto intro: setValue_length_le NachaEntry_setValue_length_le)
  have eq: "\<And>n v r'. fields_of r' = ?L \<Longrightarrow> length (data r') = 94 \<Longrightarrow>
              (\<And>f. map_of ?L n = Some f \<Longrightarrow>
                 field_type f \<noteq> None \<or> field_end f - field_start f \<le> length (str v)) \<Longrightarrow>
              length (data (snd (sv n v r'))) = 94"
  proof -
    fix n v and r' :: NachaRecord
    assume p: "fields_of r' = ?L" "length (data r') = 94"
      "\<And>f. map_of ?L n = Some f \<Longrightarrow>
         field_type f \<noteq> None \<or> field_end f - field_start f \<le> length (str v)"
    have ok': "layout_ok (fields_of r')" using ok p(1) by simp
    have q: "field_type f \<noteq> None \<or> field_end f - field_start f \<le> length (str v)"
      if "map_of (fields_of r') n = Some f" for f
      using that p(3) [of f] p(1) by simp
    have cd': "field_type f \<noteq> None" if "map_of (fields_of r') ''checkDigit'' = Some f" for f
      using that cd [of f] p(1) by simp
    have a: "length (data (snd (setValue n v r'))) = 94"
      using q by (rule setValue_length_eq [OF ok' p(2)])
    have b: "length (data (snd (NachaEntry_setValue n v r'))) = 94"
      using q cd' by (rule NachaEntry_setValue_length_eq [OF ok' p(2)])
    show "length (data (snd (sv n v r'))) = 94" using assms(2) a b by auto
  qed
  {
    fix r' :: NachaRecord
    assume "fields_of r' = ?L" "length (data r') \<le> 94"
    then have "length (data (foldl (\<lambda>r (n, v). snd (sv n v r)) r' calls)) \<le> 94"
      by (induction calls arbitrary: r') (auto simp add: keep le)
  }
  then show "length (data r) \<le> 94 \<Longrightarrow>
      length (data (foldl (\<lambda>r (n, v). snd (sv n v r)) r calls)) \<le> 94" by simp
  {
    fix r' :: NachaRecord
    assume "fields_of r' = ?L" "length (data r') = 94"
      "\<forall>(n, v) \<in> set calls. \<forall>f. map_of ?L n = Some f \<longrightarrow>
         field_type f \<noteq> None \<or> field_end f - field_start f \<le> length (str v)"
    then have "length (data (foldl (\<lambda>r (n, v). snd (sv n v r)) r' calls)) = 94"
    proof (induction calls arbitrary: r')
      case Nil
      then show ?case by simp
    next
      case (Cons c calls)
      obtain n v where c: "c = (n, v)" by (cases c)
      have "length (data (snd (sv n v r'))) = 94"
        using Cons.prems c by (intro eq) auto
      then show ?case using Cons c by (simp add: keep)
    qed
  }
  then show "length (data r) = 94 \<and>
      (\<forall>(n, v) \<in> set calls. \<forall>f. map_of (fields_of r) n = Some f \<longrightarrow>
         field_type f \<noteq> None \<or> field_end f - field_start f \<le> length (str v)) \<Longrightarrow>
      length (data (foldl (\<lambda>r (n, v). snd (sv n v r)) r calls)) = 94" by simp
qed

lemma replicate_numeral: "replicate (numeral k) x = x # replicate (pred_numeral k) x"
  by (simp add: numeral_eq_Suc)

lemmas eval_defs = replicate_numeral
  setValue_def getValue_def field_text_def set_slice_def get_slice_def new_record_def
  rjust_def ljust_def NachaFileHeader_def NachaFileControl_def NachaBatchHeader_def
  NachaBatchControl_def Let_def

lemma fileHeader_example:
  "snd (NachaFileHeader ''260101'' ''1200'' (S ''A'')) =
     \<lparr>cls = ''NachaFileHeader'', locked = False, fields_of = NachaFileHeader_fields,
      data = ''101                    2601011200A094101                                              C4 TECH ''\<rparr>"
  by (simp add: eval_defs layout_defs)

text \<open>
  C2.  The file header as its constructor leaves it has 94 bytes.  Its \<open>creationDate\<close> is
  a field of six bytes without a type, and a value written to such a field is not padded:
  writing the four characters \<open>2601\<close> replaces the six bytes by four.  The buffer has 92
  bytes, and every later field has moved two bytes to the left: the creation time, \<open>1200\<close>
  before the call, reads \<open>00A0\<close>.
\<close>

theorem short_untyped_write_shrinks_buffer:
  "length (data (snd (NachaFileHeader ''260101'' ''1200'' (S ''A'')))) = 94 \<and>
   getValue ''creationTime'' (snd (NachaFileHeader ''260101'' ''1200'' (S ''A''))) = Inr ''1200'' \<and>
   fst (setValue ''creationDate'' (S ''2601'') (snd (NachaFileHeader ''260101'' ''1200'' (S ''A'')))) = None \<and>
   length (data (snd (setValue ''creationDate'' (S ''2601'')
                  (snd (NachaFileHeader ''260101'' ''1200'' (S ''A'')))))) = 92 \<and>
   getValue ''creationDate'' (snd (setValue ''creationDate'' (S ''2601'')
                  (snd (NachaFileHeader ''260101'' ''1200'' (S ''A''))))) = Inr ''260112'' \<and>
   getValue ''creationTime'' (snd (setValue ''creationDate'' (S ''2601'')
                  (snd (NachaFileHeader ''260101'' ''1200'' (S ''A''))))) = Inr ''00A0''"
  by (simp add: eval_defs layout_defs)


section \<open>Padding policies\<close>

lemma getValue_setValue_same:
  assumes "\<not> locked r" "map_of (fields_of r) n = Some f"
    "field_start f \<le> length (data r)" "length (field_text f v) = field_end f - field_start f"
  shows "getValue n (snd (setValue n v r)) = Inr (field_text f v)"
  using assms by (simp add: setValue_ok getValue_def get_set_slice_same)



section \<open>Examples\<close>

lemmas num_eval_defs =
  py_int_def strip_def is_space_def digits_val_def digit_val_def str_int_def dec.simps
  digit_char_def digit_chars_def int_of_def getInt_def

lemma Entry_lookup:
  "map_of NachaEntry_fields ''recordType'' = Some \<lparr>field_name = ''Record Type'', field_start = 0, field_end = 1, field_type = None\<rparr>"
  "map_of NachaEntry_fields ''transactionCode'' = Some \<lparr>field_name = ''Transaction Code'', field_start = 1, field_end = 3, field_type = Some NUMERIC\<rparr>"
  "map_of NachaEntry_fields ''rdfiId'' = Some \<lparr>field_name = ''Receiving DFI Identification'', field_start = 3, field_end = 11, field_type = None\<rparr>"
  "map_of NachaEntry_fields ''checkDigit'' = Some \<lparr>field_name = ''Check Digit'', field_start = 11, field_end = 12, field_type = Some NUMERIC\<rparr>"
  "map_of NachaEntry_fields ''dfiAccountNumber'' = Some \<lparr>field_name = ''DFI Account Number'', field_start = 12, field_end = 29, field_type = Some ALPHAMERIC\<rparr>"
  "map_of NachaEntry_fields ''amount'' = Some \<lparr>field_name = ''Amonut'', field_start = 29, field_end = 39, field_type = Some NUMERIC\<rparr>"
  "map_of NachaEntry_fields ''idNumber'' = Some \<lparr>field_name = ''Individual Identification Number'', field_start = 39, field_end = 54, field_type = Some ALPHAMERIC\<rparr>"
  "map_of NachaEntry_fields ''name'' = Some \<lparr>field_name = ''Individual Name'', field_start = 54, field_end = 76, field_type = Some ALPHAMERIC\<rparr>"
  "map_of NachaEntry_fields ''addenda'' = Some \<lparr>field_name = ''Addenda Record Indicator'', field_start = 78, field_end = 79, field_type = Some NUMERIC\<rparr>"
  "map_of NachaEntry_fields ''traceNumber'' = Some \<lparr>field_name = ''Trace Number'', field_start = 79, field_end = 94, field_type = Some NUMERIC\<rparr>"
  "map_of NachaEntry_fields ''odfiId'' = Some \<lparr>field_name = ''Trace Number - Originating DFI Identification'', field_start = 79, field_end = 88, field_type = None\<rparr>"
  "map_of NachaEntry_fields ''sequenceNumber'' = Some \<lparr>field_name = ''Trace Number - Sequence Number'', field_start = 87, field_end = 94, field_type = Some NUMERIC\<rparr>"
  by (simp_all add: layout_defs)

lemmas entry_eval_defs =
  NachaEntry_def NachaEntry_setValue_def calculateCheckDigit_def CHECK_DIGIT_WEIGHTS_def
  setValue_def getValue_def field_text_def set_slice_def get_slice_def rjust_def ljust_def
  Let_def new_record_def replicate_numeral Entry_lookup num_eval_defs

lemma entry_example:
  "NachaEntry (S ''22'') (S ''07640125'') (S ''12345678'') (I 10000) (S ''ID0001'') (S ''JOHN DOE'') =
     (None, entry0)"
  by (simp add: entry_eval_defs entry_data_def entry0_def)

text \<open>
  C1.  The routing number 00000000 has the weighted sum 0, so its check digit is 0.
  \<open>calculateCheckDigit\<close> returns \<open>nextTen - total = 10\<close> there, and the one-byte
  NUMERIC field keeps the first character of \<open>10\<close>: the digit written is 1.
\<close>

theorem checkDigit_sum_multiple_of_ten:
  "calculateCheckDigit (snd (setValue ''rdfiId'' (S ''00000000'') entry0)) = Inr 10 \<and>
   fst (NachaEntry_setValue ''rdfiId'' (S ''00000000'') entry0) = None \<and>
   getValue ''rdfiId'' (snd (NachaEntry_setValue ''rdfiId'' (S ''00000000'') entry0))
     = Inr ''00000000'' \<and>
   getValue ''checkDigit'' (snd (NachaEntry_setValue ''rdfiId'' (S ''00000000'') entry0))
     = Inr ''1''"
  by (simp add: entry_eval_defs entry_data_def entry0_def)

text \<open>
  C6.  The entry layout declares \<open>odfiId\<close> as bytes 80 to 88, nine bytes, where the batch
  header and the batch control have 80 to 87.  Writing the eight characters of an
  originating id over the nine-byte range removes byte 88: the buffer has 93 bytes, the
  sequence number has lost its first digit and the trace number reads 14 bytes.
\<close>

theorem odfiId_write_shifts_sequenceNumber:
  "fst (NachaEntry_setValue ''sequenceNumber'' (I 1) entry0) = None \<and>
   length (data (snd (NachaEntry_setValue ''sequenceNumber'' (I 1) entry0))) = 94 \<and>
   getValue ''sequenceNumber'' (snd (NachaEntry_setValue ''sequenceNumber'' (I 1) entry0))
     = Inr ''0000001'' \<and>
   fst (NachaEntry_setValue ''odfiId'' (S ''12345678'')
         (snd (NachaEntry_setValue ''sequenceNumber'' (I 1) entry0))) = None \<and>
   length (data (snd (NachaEntry_setValue ''odfiId'' (S ''12345678'')
         (snd (NachaEntry_setValue ''sequenceNumber'' (I 1) entry0))))) = 93 \<and>
   getValue ''sequenceNumber'' (snd (NachaEntry_setValue ''odfiId'' (S ''12345678'')
         (snd (NachaEntry_setValue ''sequenceNumber'' (I 1) entry0)))) = Inr ''000001'' \<and>
   getValue ''traceNumber'' (snd (NachaEntry_setValue ''odfiId'' (S ''12345678'')
         (snd (NachaEntry_setValue ''sequenceNumber'' (I 1) entry0)))) = Inr ''12345678000001''"
  by (simp add: entry_eval_defs entry_data_def entry0_def)

text \<open>
  A routing number with a character that is no digit: the bytes are written, then the
  check digit computation raises \<open>ValueError\<close>, and the write stays.
\<close>

lemma rdfiId_partial_write:
  "fst (NachaEntry_setValue ''rdfiId'' (S ''0764012X'') entry0) = Some ValueError \<and>
   getValue ''rdfiId'' entry0 = Inr ''07640125'' \<and>
   getValue ''rdfiId'' (snd (NachaEntry_setValue ''rdfiId'' (S ''0764012X'') entry0))
     = Inr ''0764012X''"
  by (simp add: entry_eval_defs entry_data_def entry0_def)


section \<open>Failed calls\<close>

lemma NachaEntry_setValue_other:
  "n \<noteq> ''rdfiId'' \<Longrightarrow> NachaEntry_setValue n v r = setValue n v r"
  by (cases "setValue n v r") (auto simp add: NachaEntry_setValue_def split: option.splits)

lemma setValue_fails_iff:
  "fst (setValue n v r) \<noteq> None \<longleftrightarrow> locked r \<or> map_of (fields_of r) n = None"
  by (simp add: setValue_def split: option.splits)

lemma setValue_locked: "locked r \<Longrightarrow> setValue n v r = (Some (NachaError locked_msg), r)"
  by (simp add: setValue_def)

lemma NachaEntry_setValue_locked:
  "locked r \<Longrightarrow> NachaEntry_setValue n v r = (Some (NachaError locked_msg), r)"
  by (simp add: NachaEntry_setValue_def setValue_locked)

lemma setValue_succeeds:
  assumes "\<not> locked r" "map_of (fields_of r) n \<noteq> None"
  obtains r' where "setValue n v r = (None, r')" "\<not> locked r'" "fields_of r' = fields_of r"
proof -
  have "fst (setValue n v r) = None" using assms by (auto simp add: setValue_def)
  then have "setValue n v r = (None, snd (setValue n v r))"
    by (cases "setValue n v r") simp
  moreover have "\<not> locked (snd (setValue n v r))" "fields_of (snd (setValue n v r)) = fields_of r"
    using assms(1) by (simp_all add: setValue_unchanged)
  ultimately show ?thesis using that by blast
qed

lemma NachaEntry_setValue_fails:
  assumes "fields_of r = NachaEntry_fields" "fst (NachaEntry_setValue n v r) \<noteq> None"
    "fst (NachaEntry_setValue n v r) \<noteq> Some ValueError"
  shows "snd (NachaEntry_setValue n v r) = r"
proof (cases "fst (setValue n v r) = None")
  case False
  then have "snd (setValue n v r) = r" by (rule setValue_fails)
  moreover obtain e where "fst (setValue n v r) = Some e" using False by auto
  ultimately show ?thesis
    by (cases "setValue n v r") (simp add: NachaEntry_setValue_def)
next
  case True
  then have "\<not> locked r" "map_of (fields_of r) n \<noteq> None"
    using setValue_fails_iff [of n v r] by auto
  then obtain r1 where s: "setValue n v r = (None, r1)" and u: "\<not> locked r1"
    and f: "fields_of r1 = NachaEntry_fields"
    using assms(1) by (metis setValue_succeeds)
  have ok: "fst (setValue ''checkDigit'' d r1) = None" for d
    using u f setValue_fails_iff [of "''checkDigit''" d r1] by (simp add: Entry_lookup)
  obtain t where t: "getValue ''rdfiId'' r1 = Inr t" by (simp add: getValue_def f Entry_lookup)
  show ?thesis
  proof (cases "n = ''rdfiId''")
    case False
    then show ?thesis using assms(2) True by (simp add: NachaEntry_setValue_other)
  next
    case True
    show ?thesis
    proof (cases "those (map (\<lambda>c. py_int [c]) t)")
      case None
      then have "NachaEntry_setValue n v r = (Some ValueError, r1)"
        using s t True by (simp add: NachaEntry_setValue_def calculateCheckDigit_def)
      then show ?thesis using assms(3) by simp
    next
      case (Some ds)
      then obtain d where "calculateCheckDigit r1 = Inr d"
        using t by (simp add: calculateCheckDigit_def Let_def)
      then have "NachaEntry_setValue n v r = setValue ''checkDigit'' (I d) r1"
        using s True by (simp add: NachaEntry_setValue_def)
      then show ?thesis using assms(2) ok [of "I d"] by simp
    qed
  qed
qed

lemma addEntry_fails:
  assumes "fields_of (st e) = NachaEntry_fields" "fst (addEntry e b st) \<noteq> None"
  shows "snd (addEntry e b st) = (b, st)"
proof (cases "finalized b")
  case True
  then show ?thesis by (simp add: addEntry_def)
next
  case nf: False
  show ?thesis
  proof (cases "getValue ''odfiId'' (batchHeader b)")
    case (Inl x)
    then show ?thesis using nf by (simp add: addEntry_def)
  next
    case (Inr odfi)
    show ?thesis
    proof (cases "locked (st e)")
      case True
      then show ?thesis using nf Inr by (simp add: addEntry_def NachaEntry_setValue_locked)
    next
      case False
      have "map_of (fields_of (st e)) ''odfiId'' \<noteq> None" using assms(1) by (simp add: Entry_lookup)
      then obtain r1 where 1: "setValue ''odfiId'' (S odfi) (st e) = (None, r1)"
        and u1: "\<not> locked r1" and f1: "fields_of r1 = NachaEntry_fields"
        using False assms(1) by (metis setValue_succeeds)
      have "map_of (fields_of r1) ''sequenceNumber'' \<noteq> None" using f1 by (simp add: Entry_lookup)
      then obtain r2 where
        2: "setValue ''sequenceNumber'' (I (int (length (entries b)) + 1)) r1 = (None, r2)"
        using u1 by (metis setValue_succeeds)
      have "fst (addEntry e b st) = None"
        using nf Inr 1 2 by (simp add: addEntry_def NachaEntry_setValue_other)
      then show ?thesis using assms(2) by simp
    qed
  qed
qed

text \<open>
  C8 (as amended).  A \<open>setValue\<close> that fails with the locked-record or the unknown-field
  error leaves the record as it was (on an entry: every failure other than the
  \<open>ValueError\<close> of the check digit computation); a failed \<open>addEntry\<close> leaves the batch
  and the entry as they were; a failed \<open>addBatch\<close> leaves the file as it was.  On a
  finalized batch \<open>addEntry\<close> always fails with the batch-finalized error and on a
  finalized file \<open>addBatch\<close> always fails with the file-finalized error, and neither
  changes anything.
\<close>

theorem failed_calls_leave_state:
  "(fst (setValue n v r) \<noteq> None \<longrightarrow> snd (setValue n v r) = r) \<and>
   (fields_of r = NachaEntry_fields \<and> fst (NachaEntry_setValue n v r) \<noteq> None \<and>
      fst (NachaEntry_setValue n v r) \<noteq> Some ValueError \<longrightarrow>
      snd (NachaEntry_setValue n v r) = r) \<and>
   (fields_of (st e) = NachaEntry_fields \<and> fst (addEntry e b st) \<noteq> None \<longrightarrow>
      snd (addEntry e b st) = (b, st)) \<and>
   (finalized b \<longrightarrow> addEntry e b st = (Some (NachaError batch_finalized_msg), b, st)) \<and>
   (fst (addBatch b st f) \<noteq> None \<longrightarrow> fst (snd (addBatch b st f)) = f) \<and>
   (file_finalized f \<longrightarrow> addBatch b st f = (Some (NachaError file_finalized_msg), f, b))"
proof (intro conjI impI)
  show "fst (setValue n v r) \<noteq> None \<Longrightarrow> snd (setValue n v r) = r"
    by (rule setValue_fails)
  show "fields_of r = NachaEntry_fields \<and> fst (NachaEntry_setValue n v r) \<noteq> None \<and>
      fst (NachaEntry_setValue n v r) \<noteq> Some ValueError \<Longrightarrow> snd (NachaEntry_setValue n v r) = r"
    using NachaEntry_setValue_fails [of r n v] by simp
  show "fields_of (st e) = NachaEntry_fields \<and> fst (addEntry e b st) \<noteq> None \<Longrightarrow>
      snd (addEntry e b st) = (b, st)"
    using addEntry_fails [of st e b] by simp
  show "finalized b \<Longrightarrow> addEntry e b st = (Some (NachaError batch_finalized_msg), b, st)"
    by (simp add: addEntry_def)
  show "fst (addBatch b st f) \<noteq> None \<Longrightarrow> fst (snd (addBatch b st f)) = f"
    by (auto simp add: addBatch_def split: if_splits prod.splits option.splits)
  show "file_finalized f \<Longrightarrow> addBatch b st f = (Some (NachaError file_finalized_msg), f, b)"
    by (simp add: addBatch_def)
qed

text \<open>
  The claim as stated fails on an entry: a routing number with a character that is no
  digit is written, the check digit computation then raises, and the write stays.
\<close>

theorem failed_calls_leave_state_counterexample:
  "fst (NachaEntry_setValue ''rdfiId'' (S ''0764012X'') entry0) = Some ValueError \<and>
   snd (NachaEntry_setValue ''rdfiId'' (S ''0764012X'') entry0) \<noteq> entry0"
proof -
  have "getValue ''rdfiId'' (snd (NachaEntry_setValue ''rdfiId'' (S ''0764012X'') entry0))
          \<noteq> getValue ''rdfiId'' entry0"
    using rdfiId_partial_write by simp
  then have "snd (NachaEntry_setValue ''rdfiId'' (S ''0764012X'') entry0) \<noteq> entry0"
    by auto
  then show ?thesis using rdfiId_partial_write by simp
qed

theorem failed_calls_leave_state_witness:
  "fst (setValue ''amount'' (I 5) (lock entry0)) \<noteq> None \<and>
   snd (setValue ''amount'' (I 5) (lock entry0)) = lock entry0 \<and>
   fst (NachaEntry_setValue ''amount'' (I 5) (lock entry0)) = Some (NachaError locked_msg) \<and>
   snd (NachaEntry_setValue ''amount'' (I 5) (lock entry0)) = lock entry0 \<and>
   addEntry 0 \<lparr>finalized = True, entries = [], batchHeader = snd NachaBatchHeader,
                batchControl = snd NachaBatchControl\<rparr> (\<lambda>_. lock entry0) =
     (Some (NachaError batch_finalized_msg),
      \<lparr>finalized = True, entries = [], batchHeader = snd NachaBatchHeader,
        batchControl = snd NachaBatchControl\<rparr>, (\<lambda>_. lock entry0)) \<and>
   addBatch \<lparr>finalized = True, entries = [], batchHeader = snd NachaBatchHeader,
               batchControl = snd NachaBatchControl\<rparr> (\<lambda>_. lock entry0)
            \<lparr>file_finalized = True, batches = [], nineFill = [],
              fileHeader = snd (NachaFileHeader ''260101'' ''1200'' (S ''A'')),
              fileControl = snd NachaFileControl\<rparr> =
     (Some (NachaError file_finalized_msg),
      \<lparr>file_finalized = True, batches = [], nineFill = [],
        fileHeader = snd (NachaFileHeader ''260101'' ''1200'' (S ''A'')),
        fileControl = snd NachaFileControl\<rparr>,
      \<lparr>finalized = True, entries = [], batchHeader = snd NachaBatchHeader,
        batchControl = snd NachaBatchControl\<rparr>)"
proof -
  let ?r = "lock entry0"
  let ?b = "\<lparr>finalized = True, entries = [], batchHeader = snd NachaBatchHeader,
             batchControl = snd NachaBatchControl\<rparr>"
  let ?f = "\<lparr>file_finalized = True, batches = [], nineFill = [],
             fileHeader = snd (NachaFileHeader ''260101'' ''1200'' (S ''A'')),
             fileControl = snd NachaFileControl\<rparr>"
  have l: "locked ?r" "fields_of ?r = NachaEntry_fields" by (simp_all add: lock_def entry0_def)
  have 1: "setValue ''amount'' (I 5) ?r = (Some (NachaError locked_msg), ?r)"
    using l(1) by (rule setValue_locked)
  have 2: "NachaEntry_setValue ''amount'' (I 5) ?r = (Some (NachaError locked_msg), ?r)"
    using l(1) by (rule NachaEntry_setValue_locked)
  have 3: "finalized ?b" "file_finalized ?f" by simp_all
  show ?thesis
    using failed_calls_leave_state [where n = "''amount''" and v = "I 5" and r = ?r
        and st = "\<lambda>_. lock entry0" and e = 0 and b = ?b and f = ?f] l 1 2 3
    by simp
qed


section \<open>Entries and batches\<close>

lemma run_preserves:
  assumes "\<And>f s e s'. f \<in> set fs \<Longrightarrow> P s \<Longrightarrow> f s = (e, s') \<Longrightarrow> P s'" "P s" "run fs s = (e, s')"
  shows "P s'"
  using assms
proof (induction fs arbitrary: s)
  case Nil
  then show ?case by simp
next
  case (Cons f fs)
  obtain e1 s1 where f: "f s = (e1, s1)" by (cases "f s")
  have p1: "P s1" using Cons.prems(1) [of f s e1 s1] Cons.prems(2) f by simp
  have rest: "\<And>g t e t'. g \<in> set fs \<Longrightarrow> P t \<Longrightarrow> g t = (e, t') \<Longrightarrow> P t'"
    using Cons.prems(1) by (meson list.set_intros(2))
  show ?case
  proof (cases e1)
    case None
    then have "run fs s1 = (e, s')" using Cons.prems(3) f by simp
    then show ?thesis using Cons.IH [OF rest p1] by simp
  next
    case (Some x)
    then show ?thesis using Cons.prems(3) f p1 by simp
  qed
qed

lemma on_header_keeps:
  "on_header (setValue n v) b = (e, b') \<Longrightarrow>
   entries b' = entries b \<and> finalized b' = finalized b \<and> batchControl b' = batchControl b \<and>
   fields_of (batchHeader b') = fields_of (batchHeader b)"
  using setValue_unchanged(1) [of n v "batchHeader b"]
  by (auto simp add: on_header_def split: prod.splits)

lemma on_control_keeps:
  "on_control (setValue n v) b = (e, b') \<Longrightarrow>
   entries b' = entries b \<and> finalized b' = finalized b \<and> batchHeader b' = batchHeader b \<and>
   fields_of (batchControl b') = fields_of (batchControl b)"
  using setValue_unchanged(1) [of n v "batchControl b"]
  by (auto simp add: on_control_def split: prod.splits)

lemma setDualField_keeps:
  assumes "setDualField n v b = (e, b')"
  shows "entries b' = entries b \<and> fields_of (batchHeader b') = fields_of (batchHeader b)"
proof -
  let ?P = "\<lambda>x. entries x = entries b \<and> fields_of (batchHeader x) = fields_of (batchHeader b)"
  have "?P b'"
  proof (rule run_preserves [where P = ?P and s = b and e = e
        and fs = "[on_header (setValue n v), on_control (setValue n v)]"])
    show "?P b" by simp
    show "run [on_header (setValue n v), on_control (setValue n v)] b = (e, b')"
      using assms by (simp add: setDualField_def)
    fix f s e1 s1
    assume "f \<in> set [on_header (setValue n v), on_control (setValue n v)]" "?P s" "f s = (e1, s1)"
    then show "?P s1" using on_header_keeps [of n v s e1 s1] on_control_keeps [of n v s e1 s1] by auto
  qed
  then show ?thesis .
qed

lemma NachaBatch_new:
  assumes "NachaBatch dd ed sc cc cn de ci oi = (e, b)"
  shows "entries b = [] \<and> fields_of (batchHeader b) = NachaBatchHeader_fields"
proof -
  let ?P = "\<lambda>x. entries x = [] \<and> fields_of (batchHeader x) = NachaBatchHeader_fields"
  let ?b0 = "\<lparr>finalized = False, entries = [],
        batchHeader = snd NachaBatchHeader, batchControl = snd NachaBatchControl\<rparr>"
  have "?P b"
  proof (rule run_preserves [where P = ?P and s = ?b0 and e = e, OF _ _ assms [unfolded NachaBatch_def]])
    show "?P ?b0" by (simp add: NachaBatchHeader_def setValue_unchanged new_record_def)
    fix f s e1 s1
    assume f: "f \<in> set [setDualField ''serviceCode'' sc,
          on_header (setValue ''entryClassCode'' cc),
          on_header (setValue ''companyName'' cn),
          on_header (setValue ''entryDescription'' de),
          on_header (setValue ''descriptiveDate'' (S dd)),
          on_header (setValue ''entryDate'' (S ed)),
          setDualField ''companyId'' ci,
          setDualField ''odfiId'' oi]" and p: "?P s" and r: "f s = (e1, s1)"
    from f consider n v where "f = setDualField n v" | n v where "f = on_header (setValue n v)"
      by auto
    then show "?P s1"
    proof cases
      case 1
      then show ?thesis using setDualField_keeps [of n v s e1 s1] p r by simp
    next
      case 2
      then show ?thesis using on_header_keeps [of n v s e1 s1] p r by simp
    qed
  qed
  then show ?thesis .
qed

lemma NachaBatch_finalize_keeps:
  assumes "NachaBatch_finalize n st b = (e, b')"
  shows "entries b' = entries b \<and> fields_of (batchHeader b') = fields_of (batchHeader b)"
proof (cases "finalized b")
  case True
  then show ?thesis using assms by (simp add: NachaBatch_finalize_def)
next
  case False
  let ?P = "\<lambda>x. entries x = entries b \<and> fields_of (batchHeader x) = fields_of (batchHeader b)"
  let ?last = "\<lambda>b. (None :: error option, b\<lparr>batchHeader := lock (batchHeader b),
                                                batchControl := lock (batchControl b),
                                                finalized := True\<rparr>)"
  have basic: "?P s1" if "?P s" and "f s = (e1, s1)"
    and "(\<exists>n v. f = setDualField n v) \<or> (\<exists>n v. f = on_control (setValue n v)) \<or> f = ?last"
    for f s e1 s1
    using that setDualField_keeps [of _ _ s e1 s1] on_control_keeps [of _ _ s e1 s1]
    by (auto simp add: lock_def)
  let ?tail = "\<lambda>h d c. [on_control (setValue ''entryHash'' (I (h mod 10000000000))),
                          on_control (setValue ''creditAmount'' (I c)),
                          on_control (setValue ''debitAmount'' (I d)), ?last]"
  have tail: "?P s1" if "?P s" and "run (?tail h d c) s = (e1, s1)" for h d c s e1 s1
  proof (rule run_preserves [where P = ?P, OF _ that])
    fix f t e2 t2
    assume "f \<in> set (?tail h d c)" "?P t" "f t = (e2, t2)"
    then show "?P t2" using basic [of t f e2 t2] by auto
  qed
  let ?third = "\<lambda>b. case getValue ''serviceCode'' (batchHeader b) of
                     Inl e \<Rightarrow> (Some e, b)
                   | Inr serviceCode \<Rightarrow>
                       (case batch_totals serviceCode st (entries b) (0, 0, 0) of
                          Inl e \<Rightarrow> (Some e, b)
                        | Inr (entryHash, debitAmount, creditAmount) \<Rightarrow>
                            run (?tail entryHash debitAmount creditAmount) b)"
  have third: "?P s1" if "?P s" and "?third s = (e1, s1)" for s e1 s1
    using that tail [of s _ _ _ e1 s1]
    by (auto split: sum.splits prod.splits)
  have r: "run [setDualField ''batchNumber'' n,
             on_control (setValue ''entryCount'' (I (int (length (entries b))))), ?third] b = (e, b')"
    using assms False by (simp add: NachaBatch_finalize_def)
  have "?P b'"
  proof (rule run_preserves [where P = ?P, OF _ _ r])
    show "?P b" by simp
    fix f t e2 t2
    assume "f \<in> set [setDualField ''batchNumber'' n,
             on_control (setValue ''entryCount'' (I (int (length (entries b))))), ?third]"
      "?P t" "f t = (e2, t2)"
    then show "?P t2" using basic [of t f e2 t2] third [of t e2 t2] by auto
  qed
  then show ?thesis .
qed

lemma addEntry_cases:
  assumes "addEntry e b st = (err, b', st')"
  shows "fields_of (batchHeader b') = fields_of (batchHeader b) \<and>
         ((b' = b \<and> (st' = st \<or> (\<not> locked (st e) \<and> (\<exists>r. \<not> locked r \<and> st' = st(e := r))))) \<or>
          (entries b' = entries b @ [e] \<and> \<not> locked (st e) \<and> (\<exists>r. locked r \<and> st' = st(e := r))))"
proof (cases "finalized b \<or> (\<exists>x. getValue ''odfiId'' (batchHeader b) = Inl x) \<or> locked (st e)")
  case True
  then have "b' = b \<and> st' = st"
    using assms by (auto simp add: addEntry_def NachaEntry_setValue_locked split: if_splits sum.splits)
  then show ?thesis by simp
next
  case False
  then obtain odfi where o: "getValue ''odfiId'' (batchHeader b) = Inr odfi"
    by (cases "getValue ''odfiId'' (batchHeader b)") auto
  obtain e1 r1 where 1: "NachaEntry_setValue ''odfiId'' (S odfi) (st e) = (e1, r1)"
    by (cases "NachaEntry_setValue ''odfiId'' (S odfi) (st e)")
  have u1: "\<not> locked r1"
    using False NachaEntry_setValue_unchanged(2) [of "''odfiId''" "S odfi" "st e"] 1 by simp
  obtain e2 r2 where
    2: "NachaEntry_setValue ''sequenceNumber'' (I (int (length (entries b)) + 1)) r1 = (e2, r2)"
    by (cases "NachaEntry_setValue ''sequenceNumber'' (I (int (length (entries b)) + 1)) r1")
  have u2: "\<not> locked r2"
    using u1 NachaEntry_setValue_unchanged(2)
      [of "''sequenceNumber''" "I (int (length (entries b)) + 1)" r1] 2 by simp
  show ?thesis
  proof (cases e1)
    case (Some x)
    then have "b' = b \<and> st' = st(e := r1)" using assms False o 1 by (simp add: addEntry_def)
    then show ?thesis using False u1 by auto
  next
    case n1: None
    show ?thesis
    proof (cases e2)
      case (Some x)
      then have "b' = b \<and> st' = st(e := r2)"
        using assms False o 1 2 n1 by (simp add: addEntry_def)
      then show ?thesis using False u2 by auto
    next
      case None
      then have "b' = b\<lparr>entries := entries b @ [e]\<rparr> \<and> st' = st(e := lock r2)"
        using assms False o 1 2 n1 by (simp add: addEntry_def)
      moreover have "locked (lock r2)" by (simp add: lock_def)
      ultimately show ?thesis using False by auto
    qed
  qed
qed

lemma addEntry_locked:
  assumes "\<not> finalized b" "fields_of (batchHeader b) = NachaBatchHeader_fields" "locked (st e)"
  shows "addEntry e b st = (Some (NachaError locked_msg), b, st)"
proof -
  obtain odfi where "getValue ''odfiId'' (batchHeader b) = Inr odfi"
    using assms(2) by (simp add: getValue_def layout_defs)
  then show ?thesis
    using assms(1,3) by (simp add: addEntry_def NachaEntry_setValue_locked)
qed

lemma entries_update_same:
  "i < length bs \<Longrightarrow> entries b' = entries (bs ! i) \<Longrightarrow> held (bs[i := b']) = held bs"
proof -
  assume a: "i < length bs" "entries b' = entries (bs ! i)"
  have "(map entries bs)[i := entries (bs ! i)] = map entries bs"
    using a(1) by (metis list_update_id nth_map)
  then show ?thesis using a by (simp add: held_def map_update)
qed

lemma entries_update_snoc:
  assumes "i < length bs" "entries b' = entries (bs ! i) @ [e]"
  shows "set (held (bs[i := b'])) = insert e (set (held bs))"
    and "distinct (held bs) \<Longrightarrow> e \<notin> set (held bs) \<Longrightarrow>
         distinct (held (bs[i := b']))"
proof -
  have a: "bs = take i bs @ bs ! i # drop (Suc i) bs" using assms(1) by (rule id_take_nth_drop)
  have b: "bs[i := b'] = take i bs @ b' # drop (Suc i) bs" using assms(1) by (rule upd_conv_take_nth_drop)
  let ?A = "concat (map entries (take i bs))" and ?C = "concat (map entries (drop (Suc i) bs))"
  have c: "held bs = ?A @ entries (bs ! i) @ ?C"
    unfolding held_def by (subst a) simp
  have d: "held (bs[i := b']) = ?A @ (entries (bs ! i) @ [e]) @ ?C"
    unfolding held_def by (subst b) (simp add: assms(2))
  show "set (held (bs[i := b'])) = insert e (set (held bs))"
    unfolding c d by auto
  show "distinct (held bs) \<Longrightarrow> e \<notin> set (held bs) \<Longrightarrow>
         distinct (held (bs[i := b']))"
    unfolding c d by auto
qed

lemma update_fields:
  assumes "\<forall>b \<in> set bs. fields_of (batchHeader b) = L" "i < length bs"
    "fields_of (batchHeader b') = fields_of (batchHeader (bs ! i))"
  shows "\<forall>b \<in> set (bs[i := b']). fields_of (batchHeader b) = L"
proof
  fix b assume "b \<in> set (bs[i := b'])"
  then have "b = b' \<or> b \<in> set bs" using set_update_subset_insert [of bs i b'] by auto
  then show "fields_of (batchHeader b) = L" using assms nth_mem [of i bs] by auto
qed

lemma step_inv:
  assumes "step s s'" "batches_inv s"
  shows "batches_inv s'"
  using assms
proof (induction rule: step.induct)
  case (new_batch dd ed sc cc cn de ci oi b bs st)
  then show ?case using NachaBatch_new [of dd ed sc cc cn de ci oi None b]
    by (simp add: batches_inv_def held_def)
next
  case (new_entry e bs tc rd da am idn nm err r st)
  then show ?case by (auto simp add: batches_inv_def)
next
  case (set_value n v st e err r bs)
  then show ?case using NachaEntry_setValue_unchanged(2) [of n v "st e"]
    by (auto simp add: batches_inv_def)
next
  case (lock_entry bs st e)
  then show ?case by (auto simp add: batches_inv_def lock_def)
next
  case (set_dual_field i bs n v err b' st)
  then have k: "entries b' = entries (bs ! i)"
      "fields_of (batchHeader b') = fields_of (batchHeader (bs ! i))"
    using setDualField_keeps [of n v "bs ! i" err b'] by simp_all
  have "held (bs[i := b']) = held bs"
    using set_dual_field.hyps(1) k(1) by (rule entries_update_same)
  moreover have "\<forall>b \<in> set (bs[i := b']). fields_of (batchHeader b) = NachaBatchHeader_fields"
    using set_dual_field.prems set_dual_field.hyps(1) k(2)
    by (intro update_fields) (simp_all add: batches_inv_def)
  ultimately show ?case using set_dual_field.prems by (simp add: batches_inv_def)
next
  case (finalize i bs n st err b')
  then have k: "entries b' = entries (bs ! i)"
      "fields_of (batchHeader b') = fields_of (batchHeader (bs ! i))"
    using NachaBatch_finalize_keeps [of n st "bs ! i" err b'] by simp_all
  have "held (bs[i := b']) = held bs"
    using finalize.hyps(1) k(1) by (rule entries_update_same)
  moreover have "\<forall>b \<in> set (bs[i := b']). fields_of (batchHeader b) = NachaBatchHeader_fields"
    using finalize.prems finalize.hyps(1) k(2)
    by (intro update_fields) (simp_all add: batches_inv_def)
  ultimately show ?case using finalize.prems by (simp add: batches_inv_def)
next
  case (add_entry i bs e st err b' st')
  have inv: "distinct (held bs)"
      "\<forall>x \<in> set (held bs). locked (st x)"
      "\<forall>b \<in> set bs. fields_of (batchHeader b) = NachaBatchHeader_fields"
    using add_entry.prems by (simp_all add: batches_inv_def)
  have c: "fields_of (batchHeader b') = fields_of (batchHeader (bs ! i))"
    and d: "(b' = bs ! i \<and> (st' = st \<or> (\<not> locked (st e) \<and> (\<exists>r. \<not> locked r \<and> st' = st(e := r))))) \<or>
          (entries b' = entries (bs ! i) @ [e] \<and> \<not> locked (st e) \<and> (\<exists>r. locked r \<and> st' = st(e := r)))"
    using addEntry_cases [OF add_entry.hyps(2)] by simp_all
  have f: "\<forall>b \<in> set (bs[i := b']). fields_of (batchHeader b) = NachaBatchHeader_fields"
    using inv(3) add_entry.hyps(1) c by (rule update_fields)
  from d show ?case
  proof
    assume a: "b' = bs ! i \<and> (st' = st \<or> (\<not> locked (st e) \<and> (\<exists>r. \<not> locked r \<and> st' = st(e := r))))"
    then have "bs[i := b'] = bs" by simp
    moreover have "\<forall>x \<in> set (held bs). locked (st' x)"
      using a inv(2) by auto
    ultimately show ?thesis using inv by (simp add: batches_inv_def)
  next
    assume a: "entries b' = entries (bs ! i) @ [e] \<and> \<not> locked (st e) \<and> (\<exists>r. locked r \<and> st' = st(e := r))"
    then have fresh: "e \<notin> set (held bs)" using inv(2) by blast
    from a have eb: "entries b' = entries (bs ! i) @ [e]" by simp
    have s: "set (held (bs[i := b'])) = insert e (set (held bs))"
      using add_entry.hyps(1) eb by (rule entries_update_snoc(1))
    have "distinct (held (bs[i := b']))"
      using add_entry.hyps(1) eb inv(1) fresh by (rule entries_update_snoc(2))
    moreover have "\<forall>x \<in> set (held (bs[i := b'])). locked (st' x)"
      unfolding s using a inv(2) by auto
    ultimately show ?thesis using f by (simp add: batches_inv_def)
  qed
qed

lemma reachable_inv:
  assumes "rtranclp step s s'" "batches_inv s"
  shows "batches_inv s'"
  using assms by (induction rule: rtranclp_induct) (auto intro: step_inv)

text \<open>
  C10.  In every state a program can reach from objects with no batches, the batches hold
  pairwise different entries, each at most once; and for every batch that is not finalized
  and every entry that some batch already holds, \<open>addEntry\<close> raises the locked-record error
  and leaves the batch (its entry sequence included) and the store (the entry's buffer
  included) as they were.
\<close>

theorem locked_entry_rejected:
  "rtranclp step ([], st0) (bs, st) \<longrightarrow>
     distinct (held bs) \<and>
     (\<forall>b \<in> set bs. \<forall>e \<in> set (held bs).
        \<not> finalized b \<longrightarrow> addEntry e b st = (Some (NachaError locked_msg), b, st))"
proof
  assume "rtranclp step ([], st0) (bs, st)"
  moreover have "batches_inv ([], st0)" by (simp add: batches_inv_def held_def)
  ultimately have "batches_inv (bs, st)" by (rule reachable_inv)
  then show "distinct (held bs) \<and>
     (\<forall>b \<in> set bs. \<forall>e \<in> set (held bs).
        \<not> finalized b \<longrightarrow> addEntry e b st = (Some (NachaError locked_msg), b, st))"
    by (auto simp add: batches_inv_def intro!: addEntry_locked)
qed


section \<open>Examples of batches\<close>

lemma BatchHeader_lookup:
  "map_of NachaBatchHeader_fields ''serviceCode'' = Some \<lparr>field_name = ''Service Class Code'', field_start = 1, field_end = 4, field_type = Some NUMERIC\<rparr>"
  "map_of NachaBatchHeader_fields ''companyName'' = Some \<lparr>field_name = ''Company Name'', field_start = 4, field_end = 20, field_type = Some ALPHAMERIC\<rparr>"
  "map_of NachaBatchHeader_fields ''companyId'' = Some \<lparr>field_name = ''Company Identification'', field_start = 40, field_end = 50, field_type = Some ALPHAMERIC\<rparr>"
  "map_of NachaBatchHeader_fields ''entryClassCode'' = Some \<lparr>field_name = ''Standard Entry Class Code'', field_start = 50, field_end = 53, field_type = Some ALPHAMERIC\<rparr>"
  "map_of NachaBatchHeader_fields ''entryDescription'' = Some \<lparr>field_name = ''Company Entry Description'', field_start = 53, field_end = 63, field_type = Some ALPHAMERIC\<rparr>"
  "map_of NachaBatchHeader_fields ''descriptiveDate'' = Some \<lparr>field_name = ''Company Descriptive Date'', field_start = 63, field_end = 69, field_type = Some ALPHAMERIC\<rparr>"
  "map_of NachaBatchHeader_fields ''entryDate'' = Some \<lparr>field_name = ''Effective Entry Date'', field_start = 69, field_end = 75, field_type = None\<rparr>"
  "map_of NachaBatchHeader_fields ''odfiId'' = Some \<lparr>field_name = ''Originating DFI Identification'', field_start = 79, field_end = 87, field_type = Some ALPHAMERIC\<rparr>"
  "map_of NachaBatchHeader_fields ''batchNumber'' = Some \<lparr>field_name = ''Batch Number'', field_start = 87, field_end = 94, field_type = Some NUMERIC\<rparr>"
  "map_of NachaBatchHeader_fields ''recordType'' = Some \<lparr>field_name = ''Record Type'', field_start = 0, field_end = 1, field_type = None\<rparr>"
  by (simp_all add: layout_defs)

lemma BatchControl_lookup:
  "map_of NachaBatchControl_fields ''serviceCode'' = Some \<lparr>field_name = ''Service Class Code'', field_start = 1, field_end = 4, field_type = Some NUMERIC\<rparr>"
  "map_of NachaBatchControl_fields ''entryCount'' = Some \<lparr>field_name = ''Entry/Addenda Count'', field_start = 4, field_end = 10, field_type = Some NUMERIC\<rparr>"
  "map_of NachaBatchControl_fields ''entryHash'' = Some \<lparr>field_name = ''Entry Hash'', field_start = 10, field_end = 20, field_type = Some NUMERIC\<rparr>"
  "map_of NachaBatchControl_fields ''debitAmount'' = Some \<lparr>field_name = ''Total Debit Entry Dollar Amount'', field_start = 20, field_end = 32, field_type = Some NUMERIC\<rparr>"
  "map_of NachaBatchControl_fields ''creditAmount'' = Some \<lparr>field_name = ''Total Credit Entry Dollar Amount'', field_start = 32, field_end = 44, field_type = Some NUMERIC\<rparr>"
  "map_of NachaBatchControl_fields ''companyId'' = Some \<lparr>field_name = ''Company Identification'', field_start = 44, field_end = 54, field_type = Some ALPHAMERIC\<rparr>"
  "map_of NachaBatchControl_fields ''odfiId'' = Some \<lparr>field_name = ''Originating DFI Identification'', field_start = 79, field_end = 87, field_type = None\<rparr>"
  "map_of NachaBatchControl_fields ''batchNumber'' = Some \<lparr>field_name = ''Batch Number'', field_start = 87, field_end = 94, field_type = Some NUMERIC\<rparr>"
  "map_of NachaBatchControl_fields ''recordType'' = Some \<lparr>field_name = ''Record Type'', field_start = 0, field_end = 1, field_type = None\<rparr>"
  by (simp_all add: layout_defs)

lemma batch_example:
  "NachaBatch ''Jan 26'' ''260105'' (S ''220'') (S ''PPD'') (S ''ACME CORP'') (S ''PAYROLL'')
      (S ''1234567890'') (S ''07640125'') = (None, batch0)"
  by (simp add: NachaBatch_def setDualField_def on_header_def on_control_def batch0_def
      NachaBatchHeader_def NachaBatchControl_def new_record_def
      setValue_def field_text_def set_slice_def rjust_def ljust_def Let_def replicate_numeral
      BatchHeader_lookup BatchControl_lookup)

lemma addEntry_succeeds:
  assumes "\<not> finalized b" "fields_of (batchHeader b) = NachaBatchHeader_fields"
    "\<not> locked (st e)" "fields_of (st e) = NachaEntry_fields"
  shows "fst (addEntry e b st) = None"
proof -
  obtain odfi where o: "getValue ''odfiId'' (batchHeader b) = Inr odfi"
    using assms(2) by (simp add: getValue_def BatchHeader_lookup)
  have "map_of (fields_of (st e)) ''odfiId'' \<noteq> None" using assms(4) by (simp add: Entry_lookup)
  then obtain r1 where 1: "setValue ''odfiId'' (S odfi) (st e) = (None, r1)"
    and u1: "\<not> locked r1" and f1: "fields_of r1 = NachaEntry_fields"
    using assms(3,4) by (metis setValue_succeeds)
  have "map_of (fields_of r1) ''sequenceNumber'' \<noteq> None" using f1 by (simp add: Entry_lookup)
  then obtain r2 where
    2: "setValue ''sequenceNumber'' (I (int (length (entries b)) + 1)) r1 = (None, r2)"
    using u1 by (metis setValue_succeeds)
  show ?thesis
    using assms(1) o 1 2 by (simp add: addEntry_def NachaEntry_setValue_other)
qed

lemma addEntry_added:
  assumes "addEntry e b st = (None, b', st')"
  shows "entries b' = entries b @ [e] \<and> finalized b' = finalized b"
  using assms
  by (auto simp add: addEntry_def split: if_splits sum.splits prod.splits option.splits)

theorem locked_entry_rejected_witness:
  "rtranclp step ([], \<lambda>_. entry0)
     ([fst (snd (addEntry 0 batch0 (\<lambda>_. entry0)))], snd (snd (addEntry 0 batch0 (\<lambda>_. entry0)))) \<and>
   held [fst (snd (addEntry 0 batch0 (\<lambda>_. entry0)))] = [0] \<and>
   \<not> finalized (fst (snd (addEntry 0 batch0 (\<lambda>_. entry0)))) \<and>
   addEntry 0 (fst (snd (addEntry 0 batch0 (\<lambda>_. entry0))))
       (snd (snd (addEntry 0 batch0 (\<lambda>_. entry0)))) =
     (Some (NachaError locked_msg), fst (snd (addEntry 0 batch0 (\<lambda>_. entry0))),
      snd (snd (addEntry 0 batch0 (\<lambda>_. entry0))))"
proof -
  let ?st0 = "\<lambda>_ :: nat. entry0"
  let ?b1 = "fst (snd (addEntry 0 batch0 ?st0))"
  let ?st1 = "snd (snd (addEntry 0 batch0 ?st0))"
  have "fst (addEntry 0 batch0 ?st0) = None"
    by (rule addEntry_succeeds) (simp_all add: batch0_def entry0_def)
  then have a: "addEntry 0 batch0 ?st0 = (None, ?b1, ?st1)"
    by (metis prod.collapse)
  have e: "entries ?b1 = [0]" "\<not> finalized ?b1"
    using addEntry_added [OF a] by (simp_all add: batch0_def)
  have "step ([], ?st0) ([] @ [batch0], ?st0)"
    using batch_example by (rule step.new_batch)
  moreover have "step ([batch0], ?st0) ([batch0][0 := ?b1], ?st1)"
    using a by (intro step.add_entry) simp_all
  ultimately have r: "rtranclp step ([], ?st0) ([?b1], ?st1)" by simp
  have h: "held [?b1] = [0]" using e(1) by (simp add: held_def)
  show ?thesis
    using locked_entry_rejected [of ?st0 "[?b1]" ?st1] r h e(2) by simp
qed


section \<open>Writing and reading the fields of a record\<close>

lemma setValue_typed:
  assumes "std L r" "layout_ok L" "map_of L n = Some f" "field_type f = Some t"
  shows "fst (setValue n v r) = None"
    and "std L (snd (setValue n v r))"
    and "getValue n (snd (setValue n v r)) = Inr (field_text f v)"
    and "map_of L g = Some f' \<Longrightarrow> field_end f' \<le> field_start f \<or> field_end f \<le> field_start f' \<Longrightarrow>
         getValue g (snd (setValue n v r)) = getValue g r"
proof -
  have u: "\<not> locked r" and fs: "fields_of r = L" and len: "length (data r) = 94"
    using assms(1) by (simp_all add: std_def)
  have m: "map_of (fields_of r) n = Some f" using assms(3) fs by simp
  have b: "field_start f < field_end f" "field_end f \<le> 94"
    using layout_okD [OF assms(2,3)] by simp_all
  have lt: "length (field_text f v) = field_end f - field_start f"
    using assms(4) by (rule length_field_text_typed)
  have sv: "setValue n v r =
     (None, r\<lparr>data := set_slice (field_start f) (field_end f) (field_text f v) (data r)\<rparr>)"
    using u m by (rule setValue_ok)
  show "fst (setValue n v r) = None" using sv by simp
  show "std L (snd (setValue n v r))"
    using sv u fs len b lt by (simp add: std_def length_set_slice_same)
  show "getValue n (snd (setValue n v r)) = Inr (field_text f v)"
    using u m lt b len by (intro getValue_setValue_same) simp_all
  assume g: "map_of L g = Some f'"
    and d: "field_end f' \<le> field_start f \<or> field_end f \<le> field_start f'"
  have "get_slice (field_start f') (field_end f')
          (set_slice (field_start f) (field_end f) (field_text f v) (data r)) =
        get_slice (field_start f') (field_end f') (data r)"
    using d
  proof
    assume "field_end f' \<le> field_start f"
    then show ?thesis using b len by (intro get_set_slice_before) simp_all
  next
    assume "field_end f \<le> field_start f'"
    then show ?thesis using b len lt by (intro get_set_slice_after) simp_all
  qed
  then show "getValue g (snd (setValue n v r)) = getValue g r"
    using sv g fs by (simp add: getValue_def)
qed

lemma field_text_numtext:
  "field_type f = Some NUMERIC \<Longrightarrow> field_text f (I i) = numtext (field_end f - field_start f) i"
  by (simp add: field_text_def numtext_def Let_def)

lemma int_of_numtext:
  assumes "0 < w" "0 \<le> i" "i < 10 ^ w"
  shows "int_of (numtext w i) = Inr i"
proof -
  have "nat i < 10 ^ w" using assms(2,3) by (simp add: nat_less_iff)
  then have "length (dec (nat i)) \<le> w" using assms(1) length_dec by blast
  then have "numtext w i = replicate (w - length (dec (nat i))) CHR ''0'' @ dec (nat i)"
    using assms(2) by (simp add: numtext_def rjust_def str_int_def)
  then show ?thesis using assms(2) by (simp add: int_of_def py_int_padded_dec)
qed

lemma getValue_lock: "getValue n (lock r) = getValue n r"
  by (simp add: getValue_def lock_def split: option.splits)

lemma getInt_lock: "getInt n (lock r) = getInt n r"
  by (simp add: getInt_def getValue_lock)

lemma on_control_ok:
  "setValue n v (batchControl b) = (None, r) \<Longrightarrow> on_control (setValue n v) b = (None, b\<lparr>batchControl := r\<rparr>)"
  by (simp add: on_control_def)

lemma on_header_ok:
  "setValue n v (batchHeader b) = (None, r) \<Longrightarrow> on_header (setValue n v) b = (None, b\<lparr>batchHeader := r\<rparr>)"
  by (simp add: on_header_def)

lemma pair_fst_snd: "fst p = None \<Longrightarrow> p = (None, snd p)"
  by (cases p) simp

section \<open>Batch totals\<close>

lemma batch_totals_sum:
  assumes "\<forall>e \<in> set es. getInt ''rdfiId'' (st e) = Inr (r e) \<and> getInt ''amount'' (st e) = Inr (a e)"
  shows "batch_totals sc st es (h, d, c) =
     Inr (h + sum_list (map r es),
          d + (if sc \<in> set [DEBITS_ONLY_SERVICE, MIXED_SERVICE] then sum_list (map a es) else 0),
          c + (if sc \<in> set [CREDITS_ONLY_SERVICE, MIXED_SERVICE] then sum_list (map a es) else 0))"
  using assms
proof (induction es arbitrary: h d c)
  case Nil
  then show ?case by simp
next
  case (Cons e es)
  have e: "getInt ''rdfiId'' (st e) = Inr (r e)" "getInt ''amount'' (st e) = Inr (a e)"
    using Cons.prems by simp_all
  have rest: "\<forall>x \<in> set es. getInt ''rdfiId'' (st x) = Inr (r x) \<and> getInt ''amount'' (st x) = Inr (a x)"
    using Cons.prems by simp
  show ?case
    by (simp add: e Cons.IH [OF rest] del: set_simps)
qed

text \<open>The batch as \<open>finalize\<close> leaves it when nothing raises.\<close>

lemma NachaBatch_finalize_result:
  fixes n :: pyval and st :: store and b :: NachaBatch
  assumes nf: "\<not> finalized b"
    and sh: "std NachaBatchHeader_fields (batchHeader b)"
    and sc: "std NachaBatchControl_fields (batchControl b)"
    and s: "getValue ''serviceCode'' (batchHeader b) = Inr s"
    and t: "batch_totals s st (entries b) (0, 0, 0) = Inr (h, d, c)"
  defines "b' \<equiv> snd (NachaBatch_finalize n st b)"
  shows "fst (NachaBatch_finalize n st b) = None"
    and "finalized b'" and "entries b' = entries b"
    and "locked (batchHeader b')" and "locked (batchControl b')"
    and "length (data (batchHeader b')) = 94" and "length (data (batchControl b')) = 94"
    and "fields_of (batchControl b') = NachaBatchControl_fields"
    and "getValue ''entryCount'' (batchControl b') = Inr (numtext 6 (int (length (entries b))))"
    and "getValue ''entryHash'' (batchControl b') = Inr (numtext 10 (h mod 10000000000))"
    and "getValue ''debitAmount'' (batchControl b') = Inr (numtext 12 d)"
    and "getValue ''creditAmount'' (batchControl b') = Inr (numtext 12 c)"
proof -
  note ok = layouts_ok(3,4)
  note HL = BatchHeader_lookup and CL = BatchControl_lookup
  define h1 where "h1 = snd (setValue ''batchNumber'' n (batchHeader b))"
  define c1 where "c1 = snd (setValue ''batchNumber'' n (batchControl b))"
  define c2 where "c2 = snd (setValue ''entryCount'' (I (int (length (entries b)))) c1)"
  define c3 where "c3 = snd (setValue ''entryHash'' (I (h mod 10000000000)) c2)"
  define c4 where "c4 = snd (setValue ''creditAmount'' (I c) c3)"
  define c5 where "c5 = snd (setValue ''debitAmount'' (I d) c4)"
  have w1: "setValue ''batchNumber'' n (batchHeader b) = (None, h1)" and sh1: "std NachaBatchHeader_fields h1"
    and g1: "getValue ''serviceCode'' h1 = Inr s"
    using setValue_typed(1,2) [OF sh ok(1) HL(9), of NUMERIC n]
      setValue_typed(4) [OF sh ok(1) HL(9) _ HL(1), of NUMERIC n] s
    by (simp_all add: h1_def pair_fst_snd)
  have w2: "setValue ''batchNumber'' n (batchControl b) = (None, c1)" and sc1: "std NachaBatchControl_fields c1"
    using setValue_typed(1,2) [OF sc ok(2) CL(8), of NUMERIC n]
    by (simp_all add: c1_def pair_fst_snd)
  have w3: "setValue ''entryCount'' (I (int (length (entries b)))) c1 = (None, c2)"
    and sc2: "std NachaBatchControl_fields c2"
    and g3: "getValue ''entryCount'' c2 = Inr (numtext 6 (int (length (entries b))))"
    using setValue_typed(1,2,3) [OF sc1 ok(2) CL(2), of NUMERIC "I (int (length (entries b)))"]
    by (simp_all add: c2_def pair_fst_snd field_text_numtext)
  have w4: "setValue ''entryHash'' (I (h mod 10000000000)) c2 = (None, c3)"
    and sc3: "std NachaBatchControl_fields c3"
    and g4: "getValue ''entryHash'' c3 = Inr (numtext 10 (h mod 10000000000))"
    and k4: "getValue ''entryCount'' c3 = getValue ''entryCount'' c2"
    using setValue_typed(1,2,3) [OF sc2 ok(2) CL(3), of NUMERIC "I (h mod 10000000000)"]
      setValue_typed(4) [OF sc2 ok(2) CL(3) _ CL(2), of NUMERIC "I (h mod 10000000000)"]
    by (simp_all add: c3_def pair_fst_snd field_text_numtext)
  have w5: "setValue ''creditAmount'' (I c) c3 = (None, c4)"
    and sc4: "std NachaBatchControl_fields c4"
    and g5: "getValue ''creditAmount'' c4 = Inr (numtext 12 c)"
    and k5: "getValue ''entryCount'' c4 = getValue ''entryCount'' c3"
      "getValue ''entryHash'' c4 = getValue ''entryHash'' c3"
    using setValue_typed(1,2,3) [OF sc3 ok(2) CL(5), of NUMERIC "I c"]
      setValue_typed(4) [OF sc3 ok(2) CL(5) _ CL(2), of NUMERIC "I c"]
      setValue_typed(4) [OF sc3 ok(2) CL(5) _ CL(3), of NUMERIC "I c"]
    by (simp_all add: c4_def pair_fst_snd field_text_numtext)
  have w6: "setValue ''debitAmount'' (I d) c4 = (None, c5)"
    and sc5: "std NachaBatchControl_fields c5"
    and g6: "getValue ''debitAmount'' c5 = Inr (numtext 12 d)"
    and k6: "getValue ''entryCount'' c5 = getValue ''entryCount'' c4"
      "getValue ''entryHash'' c5 = getValue ''entryHash'' c4"
      "getValue ''creditAmount'' c5 = getValue ''creditAmount'' c4"
    using setValue_typed(1,2,3) [OF sc4 ok(2) CL(4), of NUMERIC "I d"]
      setValue_typed(4) [OF sc4 ok(2) CL(4) _ CL(2), of NUMERIC "I d"]
      setValue_typed(4) [OF sc4 ok(2) CL(4) _ CL(3), of NUMERIC "I d"]
      setValue_typed(4) [OF sc4 ok(2) CL(4) _ CL(5), of NUMERIC "I d"]
    by (simp_all add: c5_def pair_fst_snd field_text_numtext)
  have res: "NachaBatch_finalize n st b =
      (None, \<lparr>finalized = True, entries = entries b, batchHeader = lock h1, batchControl = lock c5\<rparr>)"
    using nf w1 w2 w3 w4 w5 w6 g1 t
    by (simp add: NachaBatch_finalize_def setDualField_def on_header_def on_control_def)
  then have b': "b' = \<lparr>finalized = True, entries = entries b, batchHeader = lock h1, batchControl = lock c5\<rparr>"
    by (simp add: b'_def)
  show "fst (NachaBatch_finalize n st b) = None" using res by simp
  show "finalized b'" "entries b' = entries b" "locked (batchHeader b')" "locked (batchControl b')"
    by (simp_all add: b' lock_def)
  show "length (data (batchHeader b')) = 94" "length (data (batchControl b')) = 94"
    "fields_of (batchControl b') = NachaBatchControl_fields"
    using sh1 sc5 by (simp_all add: b' lock_def std_def)
  show "getValue ''entryCount'' (batchControl b') = Inr (numtext 6 (int (length (entries b))))"
    by (simp add: b' getValue_lock k6 k5 k4 g3)
  show "getValue ''entryHash'' (batchControl b') = Inr (numtext 10 (h mod 10000000000))"
    by (simp add: b' getValue_lock k6 k5 g4)
  show "getValue ''debitAmount'' (batchControl b') = Inr (numtext 12 d)"
    by (simp add: b' getValue_lock g6)
  show "getValue ''creditAmount'' (batchControl b') = Inr (numtext 12 c)"
    by (simp add: b' getValue_lock k6 g5)
qed

lemma getInt_numtext:
  assumes "getValue n r = Inr (numtext w i)" "0 < w" "0 \<le> i" "i < 10 ^ w"
  shows "getInt n r = Inr i"
  using assms by (simp add: getInt_def int_of_numtext)

lemmas service_defs = DEBITS_ONLY_SERVICE_def MIXED_SERVICE_def CREDITS_ONLY_SERVICE_def

text \<open>
  C4 (as amended).  The first \<open>finalize\<close> of a batch whose header and control are
  unlocked, whose entries have the routing numbers \<open>r\<close> and the amounts \<open>a\<close>, and whose
  service class code is \<open>s\<close>, writes into the batch control: the number of entries; the
  sum of the routing numbers modulo \<open>10^10\<close>; as debit total the sum of the amounts when
  \<open>s\<close> is 225 or 200, else 0; as credit total the sum of the amounts when \<open>s\<close> is 220 or
  200, else 0; provided the count is below \<open>10^6\<close> and the sum of the amounts is below
  \<open>10^12\<close>, so that the six and twelve bytes of the fields hold them.
\<close>

theorem batch_finalize_totals:
  fixes r a :: "nat \<Rightarrow> int"
  assumes "\<not> finalized b"
    and "std NachaBatchHeader_fields (batchHeader b)"
    and "std NachaBatchControl_fields (batchControl b)"
    and "getValue ''serviceCode'' (batchHeader b) = Inr s"
    and "\<forall>e \<in> set (entries b).
           getInt ''rdfiId'' (st e) = Inr (r e) \<and> getInt ''amount'' (st e) = Inr (a e)"
    and "length (entries b) < 10 ^ 6"
    and "0 \<le> sum_list (map a (entries b))" "sum_list (map a (entries b)) < 10 ^ 12"
  shows "fst (NachaBatch_finalize n st b) = None \<and>
     finalized (snd (NachaBatch_finalize n st b)) \<and>
     getInt ''entryCount'' (batchControl (snd (NachaBatch_finalize n st b)))
       = Inr (int (length (entries b))) \<and>
     getInt ''entryHash'' (batchControl (snd (NachaBatch_finalize n st b)))
       = Inr (sum_list (map r (entries b)) mod 10 ^ 10) \<and>
     getInt ''debitAmount'' (batchControl (snd (NachaBatch_finalize n st b)))
       = Inr (if s = ''225'' \<or> s = ''200'' then sum_list (map a (entries b)) else 0) \<and>
     getInt ''creditAmount'' (batchControl (snd (NachaBatch_finalize n st b)))
       = Inr (if s = ''220'' \<or> s = ''200'' then sum_list (map a (entries b)) else 0)"
proof -
  let ?A = "sum_list (map a (entries b))"
  let ?d = "if s = ''225'' \<or> s = ''200'' then ?A else 0"
  let ?c = "if s = ''220'' \<or> s = ''200'' then ?A else 0"
  have t: "batch_totals s st (entries b) (0, 0, 0) = Inr (sum_list (map r (entries b)), ?d, ?c)"
    using batch_totals_sum [OF assms(5), of s 0 0 0] by (auto simp add: service_defs)
  note res = NachaBatch_finalize_result [OF assms(1-4) t, of n]
  have hm: "0 \<le> sum_list (map r (entries b)) mod 10000000000"
      "sum_list (map r (entries b)) mod 10000000000 < 10 ^ 10"
    by simp_all
  have d: "0 \<le> ?d" "?d < 10 ^ 12" and c: "0 \<le> ?c" "?c < 10 ^ 12"
    using assms(7,8) by simp_all
  have n: "int (length (entries b)) < 10 ^ 6" using assms(6) by (simp flip: of_nat_less_iff)
  have "getInt ''entryCount'' (batchControl (snd (NachaBatch_finalize n st b)))
       = Inr (int (length (entries b)))"
    using res(9) _ _ n by (rule getInt_numtext) simp_all
  moreover have "getInt ''entryHash'' (batchControl (snd (NachaBatch_finalize n st b)))
       = Inr (sum_list (map r (entries b)) mod 10 ^ 10)"
    using getInt_numtext [OF res(10) _ hm] by simp
  moreover have "getInt ''debitAmount'' (batchControl (snd (NachaBatch_finalize n st b))) = Inr ?d"
    using res(11) _ d by (rule getInt_numtext) simp
  moreover have "getInt ''creditAmount'' (batchControl (snd (NachaBatch_finalize n st b))) = Inr ?c"
    using res(12) _ c by (rule getInt_numtext) simp
  ultimately show ?thesis using res(1,2) by simp
qed

lemma sum_list_const: "sum_list (map (\<lambda>_. c) xs) = int (length xs) * (c :: int)"
  by (induction xs) (simp_all add: algebra_simps)

lemma entry_max_fields:
  "getInt ''rdfiId'' entry_max = Inr 7640125" "getInt ''amount'' entry_max = Inr 9999999999"
  by (simp_all add: getInt_def getValue_def get_slice_def Entry_lookup entry_max_def num_eval_defs)

lemma batch0_std:
  "\<not> finalized batch0" "std NachaBatchHeader_fields (batchHeader batch0)"
  "std NachaBatchControl_fields (batchControl batch0)"
  "getValue ''serviceCode'' (batchHeader batch0) = Inr ''220''"
  by (simp_all add: batch0_def std_def getValue_def get_slice_def BatchHeader_lookup)

text \<open>
  The claim as stated fails when a total outgrows its field: 101 entries of 9999999999
  in a credits-only batch sum to 1009999999899, thirteen digits, and the twelve-byte
  field keeps the first twelve.
\<close>

theorem batch_finalize_totals_counterexample:
  "getValue ''serviceCode'' (batchHeader batch101) = Inr ''220'' \<and>
   length (entries batch101) = 101 \<and>
   getInt ''amount'' (max_store 0) = Inr 9999999999 \<and>
   getInt ''amount'' (max_store 100) = Inr 9999999999 \<and>
   fst (NachaBatch_finalize (I 1) max_store batch101) = None \<and>
   getInt ''creditAmount'' (batchControl (snd (NachaBatch_finalize (I 1) max_store batch101)))
     = Inr 100999999989 \<and>
   (100999999989 :: int) \<noteq> 101 * 9999999999"
proof -
  have b: "\<not> finalized batch101" "std NachaBatchHeader_fields (batchHeader batch101)"
    "std NachaBatchControl_fields (batchControl batch101)"
    "getValue ''serviceCode'' (batchHeader batch101) = Inr ''220''"
    using batch0_std by (simp_all add: batch101_def)
  have l: "length (entries batch101) = 101" by (simp add: batch101_def)
  have e: "\<forall>e \<in> set (entries batch101).
      getInt ''rdfiId'' (max_store e) = Inr ((\<lambda>_. 7640125) e) \<and>
      getInt ''amount'' (max_store e) = Inr ((\<lambda>_. 9999999999) e)"
    by (simp add: max_store_def entry_max_fields)
  have t: "batch_totals ''220'' max_store (entries batch101) (0, 0, 0) =
      Inr (101 * 7640125, 0, 101 * 9999999999)"
    using batch_totals_sum [OF e, of "''220''" 0 0 0] l
    by (simp add: service_defs sum_list_const)
  note res = NachaBatch_finalize_result [OF b t, of "I 1"]
  have "numtext 12 (101 * 9999999999) = ''100999999989''"
    by (simp add: numtext_def rjust_def num_eval_defs)
  then have "getInt ''creditAmount'' (batchControl (snd (NachaBatch_finalize (I 1) max_store batch101)))
     = Inr 100999999989"
    using res(12) by (simp add: num_eval_defs)
  then show ?thesis using b(4) l res(1) by (simp add: max_store_def entry_max_fields)
qed

lemma entry0_fields:
  "getInt ''rdfiId'' entry0 = Inr 7640125" "getInt ''amount'' entry0 = Inr 10000"
  by (simp_all add: getInt_def getValue_def get_slice_def Entry_lookup entry0_def entry_data_def
      num_eval_defs)

theorem batch_finalize_totals_witness:
  "fst (NachaBatch_finalize (I 1) (\<lambda>_. entry0) (batch0\<lparr>entries := [0]\<rparr>)) = None \<and>
   getInt ''entryCount''
     (batchControl (snd (NachaBatch_finalize (I 1) (\<lambda>_. entry0) (batch0\<lparr>entries := [0]\<rparr>))))
     = Inr 1 \<and>
   getInt ''entryHash''
     (batchControl (snd (NachaBatch_finalize (I 1) (\<lambda>_. entry0) (batch0\<lparr>entries := [0]\<rparr>))))
     = Inr 7640125 \<and>
   getInt ''debitAmount''
     (batchControl (snd (NachaBatch_finalize (I 1) (\<lambda>_. entry0) (batch0\<lparr>entries := [0]\<rparr>))))
     = Inr 0 \<and>
   getInt ''creditAmount''
     (batchControl (snd (NachaBatch_finalize (I 1) (\<lambda>_. entry0) (batch0\<lparr>entries := [0]\<rparr>))))
     = Inr 10000"
proof -
  let ?b = "batch0\<lparr>entries := [0]\<rparr>"
  have b: "\<not> finalized ?b" "std NachaBatchHeader_fields (batchHeader ?b)"
    "std NachaBatchControl_fields (batchControl ?b)"
    "getValue ''serviceCode'' (batchHeader ?b) = Inr ''220''"
    using batch0_std by simp_all
  have e: "\<forall>e \<in> set (entries ?b).
      getInt ''rdfiId'' ((\<lambda>_. entry0) e) = Inr ((\<lambda>_. 7640125) e) \<and>
      getInt ''amount'' ((\<lambda>_. entry0) e) = Inr ((\<lambda>_. 10000) e)"
    by (simp add: entry0_fields)
  show ?thesis
    using batch_finalize_totals [OF b e, of "I 1"] by simp
qed


section \<open>File totals\<close>

lemma FileControl_lookup:
  "map_of NachaFileControl_fields ''batchCount'' = Some \<lparr>field_name = ''Batch Count'', field_start = 1, field_end = 7, field_type = Some NUMERIC\<rparr>"
  "map_of NachaFileControl_fields ''blockCount'' = Some \<lparr>field_name = ''Block Count'', field_start = 7, field_end = 13, field_type = Some NUMERIC\<rparr>"
  "map_of NachaFileControl_fields ''entryCount'' = Some \<lparr>field_name = ''Entry Count'', field_start = 13, field_end = 21, field_type = Some NUMERIC\<rparr>"
  "map_of NachaFileControl_fields ''entryHash'' = Some \<lparr>field_name = ''Entry Hash'', field_start = 21, field_end = 31, field_type = Some NUMERIC\<rparr>"
  "map_of NachaFileControl_fields ''debitAmount'' = Some \<lparr>field_name = ''Total Debit Amount'', field_start = 31, field_end = 43, field_type = Some NUMERIC\<rparr>"
  "map_of NachaFileControl_fields ''creditAmount'' = Some \<lparr>field_name = ''Total Credit Amount'', field_start = 43, field_end = 55, field_type = Some NUMERIC\<rparr>"
  by (simp_all add: layout_defs)

lemma FileHeader_lookup:
  "map_of NachaFileHeader_fields ''blockingFactor'' = Some \<lparr>field_name = ''Blocking Factor'', field_start = 37, field_end = 39, field_type = None\<rparr>"
  by (simp_all add: layout_defs)

lemma file_example:
  "NachaFile ''260101'' ''1200'' (S ''A'') (S ''123456789'') (S ''BANK'') (S ''987654321'') (S ''ACME'')
     = (None, file0)"
  by (simp add: NachaFile_def on_fileHeader_def file0_def eval_defs layout_defs)

lemma file_totals_sum:
  assumes "\<forall>b \<in> set bs.
      getInt ''entryCount'' (batchControl b) = Inr (n b) \<and>
      getInt ''entryHash'' (batchControl b) = Inr (h b) \<and>
      getInt ''debitAmount'' (batchControl b) = Inr (d b) \<and>
      getInt ''creditAmount'' (batchControl b) = Inr (c b)"
  shows "file_totals bs (ec, eh, da, ca) =
     Inr (ec + sum_list (map n bs), eh + sum_list (map h bs),
          da + sum_list (map d bs), ca + sum_list (map c bs))"
  using assms
proof (induction bs arbitrary: ec eh da ca)
  case Nil
  then show ?case by simp
next
  case (Cons b bs)
  have b: "getInt ''entryCount'' (batchControl b) = Inr (n b)"
      "getInt ''entryHash'' (batchControl b) = Inr (h b)"
      "getInt ''debitAmount'' (batchControl b) = Inr (d b)"
      "getInt ''creditAmount'' (batchControl b) = Inr (c b)"
    using Cons.prems by simp_all
  have rest: "\<forall>b \<in> set bs.
      getInt ''entryCount'' (batchControl b) = Inr (n b) \<and>
      getInt ''entryHash'' (batchControl b) = Inr (h b) \<and>
      getInt ''debitAmount'' (batchControl b) = Inr (d b) \<and>
      getInt ''creditAmount'' (batchControl b) = Inr (c b)"
    using Cons.prems by simp
  show ?case by (simp add: b Cons.IH [OF rest])
qed

text \<open>The file as \<open>finalize\<close> leaves it when nothing raises.\<close>

lemma NachaFile_finalize_result:
  fixes f :: NachaFile
  assumes nf: "\<not> file_finalized f"
    and sc: "std NachaFileControl_fields (fileControl f)"
    and t: "file_totals (batches f) (0, 0, 0, 0) = Inr (ec, eh, da, ca)"
    and bf: "getInt ''blockingFactor'' (fileHeader f) = Inr bf" "bf \<noteq> 0"
  defines "f' \<equiv> snd (NachaFile_finalize f)"
    and "rc \<equiv> 2 + int (length (batches f)) * 2 + ec"
  shows "fst (NachaFile_finalize f) = None"
    and "file_finalized f'" and "batches f' = batches f"
    and "fileHeader f' = lock (fileHeader f)"
    and "nineFill f' = (if rc mod bf \<noteq> 0
           then join NACHA_EOL (replicate (nat (bf - rc mod bf)) (replicate 94 CHR ''9''))
           else nineFill f)"
    and "length (data (fileControl f')) = 94"
    and "getValue ''batchCount'' (fileControl f') = Inr (numtext 6 (int (length (batches f))))"
    and "getValue ''blockCount'' (fileControl f')
           = Inr (numtext 6 (if rc mod bf \<noteq> 0 then rc div bf + 1 else rc div bf))"
    and "getValue ''entryCount'' (fileControl f') = Inr (numtext 8 ec)"
    and "getValue ''entryHash'' (fileControl f') = Inr (numtext 10 (eh mod 10000000000))"
    and "getValue ''debitAmount'' (fileControl f') = Inr (numtext 12 da)"
    and "getValue ''creditAmount'' (fileControl f') = Inr (numtext 12 ca)"
proof -
  note ok = layouts_ok(2)
  note CL = FileControl_lookup
  let ?bc = "if rc mod bf \<noteq> 0 then rc div bf + 1 else rc div bf"
  define c1 where "c1 = snd (setValue ''batchCount'' (I (int (length (batches f)))) (fileControl f))"
  define c2 where "c2 = snd (setValue ''entryCount'' (I ec) c1)"
  define c3 where "c3 = snd (setValue ''entryHash'' (I (eh mod 10000000000)) c2)"
  define c4 where "c4 = snd (setValue ''debitAmount'' (I da) c3)"
  define c5 where "c5 = snd (setValue ''creditAmount'' (I ca) c4)"
  define c6 where "c6 = snd (setValue ''blockCount'' (I ?bc) c5)"
  have w1: "setValue ''batchCount'' (I (int (length (batches f)))) (fileControl f) = (None, c1)"
    and s1: "std NachaFileControl_fields c1"
    and g1: "getValue ''batchCount'' c1 = Inr (numtext 6 (int (length (batches f))))"
    using setValue_typed(1,2,3) [OF sc ok CL(1), of NUMERIC "I (int (length (batches f)))"]
    by (simp_all add: c1_def pair_fst_snd field_text_numtext)
  have w2: "setValue ''entryCount'' (I ec) c1 = (None, c2)"
    and s2: "std NachaFileControl_fields c2"
    and g2: "getValue ''entryCount'' c2 = Inr (numtext 8 ec)"
    and k2: "getValue ''batchCount'' c2 = getValue ''batchCount'' c1"
    using setValue_typed(1,2,3) [OF s1 ok CL(3), of NUMERIC "I ec"]
      setValue_typed(4) [OF s1 ok CL(3) _ CL(1), of NUMERIC "I ec"]
    by (simp_all add: c2_def pair_fst_snd field_text_numtext)
  have w3: "setValue ''entryHash'' (I (eh mod 10000000000)) c2 = (None, c3)"
    and s3: "std NachaFileControl_fields c3"
    and g3: "getValue ''entryHash'' c3 = Inr (numtext 10 (eh mod 10000000000))"
    and k3: "getValue ''batchCount'' c3 = getValue ''batchCount'' c2"
      "getValue ''entryCount'' c3 = getValue ''entryCount'' c2"
    using setValue_typed(1,2,3) [OF s2 ok CL(4), of NUMERIC "I (eh mod 10000000000)"]
      setValue_typed(4) [OF s2 ok CL(4) _ CL(1), of NUMERIC "I (eh mod 10000000000)"]
      setValue_typed(4) [OF s2 ok CL(4) _ CL(3), of NUMERIC "I (eh mod 10000000000)"]
    by (simp_all add: c3_def pair_fst_snd field_text_numtext)
  have w4: "setValue ''debitAmount'' (I da) c3 = (None, c4)"
    and s4: "std NachaFileControl_fields c4"
    and g4: "getValue ''debitAmount'' c4 = Inr (numtext 12 da)"
    and k4: "getValue ''batchCount'' c4 = getValue ''batchCount'' c3"
      "getValue ''entryCount'' c4 = getValue ''entryCount'' c3"
      "getValue ''entryHash'' c4 = getValue ''entryHash'' c3"
    using setValue_typed(1,2,3) [OF s3 ok CL(5), of NUMERIC "I da"]
      setValue_typed(4) [OF s3 ok CL(5) _ CL(1), of NUMERIC "I da"]
      setValue_typed(4) [OF s3 ok CL(5) _ CL(3), of NUMERIC "I da"]
      setValue_typed(4) [OF s3 ok CL(5) _ CL(4), of NUMERIC "I da"]
    by (simp_all add: c4_def pair_fst_snd field_text_numtext)
  have w5: "setValue ''creditAmount'' (I ca) c4 = (None, c5)"
    and s5: "std NachaFileControl_fields c5"
    and g5: "getValue ''creditAmount'' c5 = Inr (numtext 12 ca)"
    and k5: "getValue ''batchCount'' c5 = getValue ''batchCount'' c4"
      "getValue ''entryCount'' c5 = getValue ''entryCount'' c4"
      "getValue ''entryHash'' c5 = getValue ''entryHash'' c4"
      "getValue ''debitAmount'' c5 = getValue ''debitAmount'' c4"
    using setValue_typed(1,2,3) [OF s4 ok CL(6), of NUMERIC "I ca"]
      setValue_typed(4) [OF s4 ok CL(6) _ CL(1), of NUMERIC "I ca"]
      setValue_typed(4) [OF s4 ok CL(6) _ CL(3), of NUMERIC "I ca"]
      setValue_typed(4) [OF s4 ok CL(6) _ CL(4), of NUMERIC "I ca"]
      setValue_typed(4) [OF s4 ok CL(6) _ CL(5), of NUMERIC "I ca"]
    by (simp_all add: c5_def pair_fst_snd field_text_numtext)
  have w6: "setValue ''blockCount'' (I ?bc) c5 = (None, c6)"
    and s6: "std NachaFileControl_fields c6"
    and g6: "getValue ''blockCount'' c6 = Inr (numtext 6 ?bc)"
    and k6: "getValue ''batchCount'' c6 = getValue ''batchCount'' c5"
      "getValue ''entryCount'' c6 = getValue ''entryCount'' c5"
      "getValue ''entryHash'' c6 = getValue ''entryHash'' c5"
      "getValue ''debitAmount'' c6 = getValue ''debitAmount'' c5"
      "getValue ''creditAmount'' c6 = getValue ''creditAmount'' c5"
    using setValue_typed(1,2,3) [OF s5 ok CL(2), of NUMERIC "I ?bc"]
      setValue_typed(4) [OF s5 ok CL(2) _ CL(1), of NUMERIC "I ?bc"]
      setValue_typed(4) [OF s5 ok CL(2) _ CL(3), of NUMERIC "I ?bc"]
      setValue_typed(4) [OF s5 ok CL(2) _ CL(4), of NUMERIC "I ?bc"]
      setValue_typed(4) [OF s5 ok CL(2) _ CL(5), of NUMERIC "I ?bc"]
      setValue_typed(4) [OF s5 ok CL(2) _ CL(6), of NUMERIC "I ?bc"]
    by (simp_all add: c6_def pair_fst_snd field_text_numtext)
  let ?fill = "if rc mod bf \<noteq> 0
           then join NACHA_EOL (replicate (nat (bf - rc mod bf)) (replicate 94 CHR ''9''))
           else nineFill f"
  have w6': "rc mod bf \<noteq> 0 \<Longrightarrow> setValue ''blockCount'' (I (rc div bf + 1)) c5 = (None, c6)"
    "rc mod bf = 0 \<Longrightarrow> setValue ''blockCount'' (I (rc div bf)) c5 = (None, c6)"
    using w6 by simp_all
  have blocks: "set_blocks ec (f\<lparr>fileControl := c5\<rparr>) = (None, f\<lparr>fileControl := c6, nineFill := ?fill\<rparr>)"
    using bf w6' by (cases "rc mod bf = 0") (simp_all add: set_blocks_def on_fileControl_def rc_def Let_def)
  have res: "NachaFile_finalize f =
      (None, f\<lparr>fileControl := lock c6, nineFill := ?fill, fileHeader := lock (fileHeader f),
               file_finalized := True\<rparr>)"
    using nf w1 w2 w3 w4 w5 t blocks
    by (simp add: NachaFile_finalize_def on_fileControl_def)
  then have f': "f' = f\<lparr>fileControl := lock c6, nineFill := ?fill, fileHeader := lock (fileHeader f),
               file_finalized := True\<rparr>"
    by (simp add: f'_def)
  show "fst (NachaFile_finalize f) = None" using res by simp
  show "file_finalized f'" "batches f' = batches f" "fileHeader f' = lock (fileHeader f)"
    "nineFill f' = ?fill"
    by (simp_all add: f')
  show "length (data (fileControl f')) = 94" using s6 by (simp add: f' lock_def std_def)
  show "getValue ''batchCount'' (fileControl f') = Inr (numtext 6 (int (length (batches f))))"
    by (simp add: f' getValue_lock k6 k5 k4 k3 k2 g1)
  show "getValue ''blockCount'' (fileControl f') = Inr (numtext 6 ?bc)"
    using g6 by (simp add: f' getValue_lock)
  show "getValue ''entryCount'' (fileControl f') = Inr (numtext 8 ec)"
    by (simp add: f' getValue_lock k6 k5 k4 k3 g2)
  show "getValue ''entryHash'' (fileControl f') = Inr (numtext 10 (eh mod 10000000000))"
    by (simp add: f' getValue_lock k6 k5 k4 g3)
  show "getValue ''debitAmount'' (fileControl f') = Inr (numtext 12 da)"
    by (simp add: f' getValue_lock k6 k5 g4)
  show "getValue ''creditAmount'' (fileControl f') = Inr (numtext 12 ca)"
    by (simp add: f' getValue_lock k6 g5)
qed

lemma ceil_div:
  assumes "0 < (bf :: int)"
  shows "(rc + bf - 1) div bf = (if rc mod bf \<noteq> 0 then rc div bf + 1 else rc div bf)"
proof (cases "rc mod bf = 0")
  case True
  have "rc + bf - 1 = bf * (rc div bf) + (bf - 1)"
    using True by (simp add: algebra_simps) (metis True add.right_neutral mult_div_mod_eq)
  then have "(rc + bf - 1) div bf = rc div bf"
    using assms by (intro int_div_pos_eq [where r = "bf - 1"]) simp_all
  then show ?thesis using True by simp
next
  case False
  have "0 \<le> rc mod bf" using assms by simp
  then have "0 < rc mod bf" using False by (simp add: order_less_le)
  moreover have "rc mod bf < bf" using assms by simp
  ultimately have m: "0 < rc mod bf" "rc mod bf < bf" by simp_all
  have "rc = bf * (rc div bf) + rc mod bf" by simp
  then have "rc + bf - 1 = bf * (rc div bf + 1) + (rc mod bf - 1)"
    by (simp add: algebra_simps)
  then have "(rc + bf - 1) div bf = rc div bf + 1"
    using m by (intro int_div_pos_eq [where r = "rc mod bf - 1"]) simp_all
  then show ?thesis using False by simp
qed

section \<open>Batches as a file holds them\<close>

text \<open>A \<open>finalize\<close> that raised nothing has read the service class code and summed the entries.\<close>

lemma NachaBatch_finalize_None:
  fixes n :: pyval and st :: store and b b' :: NachaBatch
  assumes nf: "\<not> finalized b"
    and sh: "std NachaBatchHeader_fields (batchHeader b)"
    and sc: "std NachaBatchControl_fields (batchControl b)"
    and fin: "NachaBatch_finalize n st b = (None, b')"
  shows "\<exists>s h d c. getValue ''serviceCode'' (batchHeader b) = Inr s \<and>
           batch_totals s st (entries b) (0, 0, 0) = Inr (h, d, c)"
proof -
  note ok = layouts_ok(3,4)
  note HL = BatchHeader_lookup and CL = BatchControl_lookup
  define h1 where "h1 = snd (setValue ''batchNumber'' n (batchHeader b))"
  define c1 where "c1 = snd (setValue ''batchNumber'' n (batchControl b))"
  define c2 where "c2 = snd (setValue ''entryCount'' (I (int (length (entries b)))) c1)"
  obtain s where s: "getValue ''serviceCode'' (batchHeader b) = Inr s"
    using sh by (simp add: getValue_def std_def HL(1))
  have w1: "setValue ''batchNumber'' n (batchHeader b) = (None, h1)"
    and g1: "getValue ''serviceCode'' h1 = Inr s"
    using setValue_typed(1,2) [OF sh ok(1) HL(9), of NUMERIC n]
      setValue_typed(4) [OF sh ok(1) HL(9) _ HL(1), of NUMERIC n] s
    by (simp_all add: h1_def pair_fst_snd)
  have w2: "setValue ''batchNumber'' n (batchControl b) = (None, c1)"
    and sc1: "std NachaBatchControl_fields c1"
    using setValue_typed(1,2) [OF sc ok(2) CL(8), of NUMERIC n]
    by (simp_all add: c1_def pair_fst_snd)
  have w3: "setValue ''entryCount'' (I (int (length (entries b)))) c1 = (None, c2)"
    using setValue_typed(1) [OF sc1 ok(2) CL(2), of NUMERIC "I (int (length (entries b)))"]
    by (simp_all add: c2_def pair_fst_snd)
  show ?thesis
  proof (cases "batch_totals s st (entries b) (0, 0, 0)")
    case (Inl e)
    have "fst (NachaBatch_finalize n st b) = Some e"
      using nf w1 w2 w3 g1 Inl
      by (simp add: NachaBatch_finalize_def setDualField_def on_header_def on_control_def)
    then show ?thesis using fin by simp
  next
    case (Inr t)
    then show ?thesis using s by (cases t) auto
  qed
qed

text \<open>
  The control record of a batch finalized with fewer than \<open>10^6\<close> entries holds the
  number of its entries.
\<close>

lemma finalized_entryCount:
  fixes n :: pyval and st :: store and b b' :: NachaBatch
  assumes nf: "\<not> finalized b"
    and sh: "std NachaBatchHeader_fields (batchHeader b)"
    and sc: "std NachaBatchControl_fields (batchControl b)"
    and fin: "NachaBatch_finalize n st b = (None, b')"
    and len: "length (entries b') < 10 ^ 6"
  shows "getInt ''entryCount'' (batchControl b') = Inr (int (length (entries b')))"
proof -
  obtain s h d c where s: "getValue ''serviceCode'' (batchHeader b) = Inr s"
    and t: "batch_totals s st (entries b) (0, 0, 0) = Inr (h, d, c)"
    using NachaBatch_finalize_None [OF nf sh sc fin] by blast
  note res = NachaBatch_finalize_result [OF nf sh sc s t, of n]
  have b': "snd (NachaBatch_finalize n st b) = b'" using fin by simp
  have e: "entries b' = entries b" using res(3) by (simp add: b')
  have g: "getValue ''entryCount'' (batchControl b') = Inr (numtext 6 (int (length (entries b'))))"
    using res(9) by (simp add: b' e)
  have l: "int (length (entries b')) < 10 ^ 6" using len by (simp flip: of_nat_less_iff)
  show ?thesis using g _ _ l by (rule getInt_numtext) simp_all
qed

text \<open>
  C3 (as amended).  Let a file that is not finalized have an unlocked file control of 94
  bytes, no filler, and \<open>B\<close> batches, each of them finalized without error (as \<open>addBatch\<close>
  does) from a batch with unlocked header and control records of 94 bytes, each of fewer
  than \<open>10^6\<close> entries, \<open>E\<close> entries in all; let the batches' control records hold the
  entry hashes \<open>h\<close> and the debit and credit totals \<open>d\<close> and \<open>c\<close>.  Its \<open>finalize\<close> writes
  into the file control: the batch count \<open>B\<close>; the entry count \<open>E\<close>; the sum of the entry
  hashes modulo \<open>10^10\<close>; the sums of the debit and credit totals; and the block count,
  the quotient of \<open>recordCount = 2 + 2 * B + E\<close> by the blocking factor of the file
  header, rounded up.  When \<open>recordCount\<close> is no multiple of the blocking factor the filler
  is \<open>blockingFactor - recordCount mod blockingFactor\<close> lines of 94 nines.  All this holds
  provided every number fits its field: \<open>B\<close> and the block count below \<open>10^6\<close>, \<open>E\<close>
  below \<open>10^8\<close>, the two sums of totals at least 0 and below \<open>10^12\<close>.
\<close>

theorem file_finalize_totals:
  fixes h d c :: "NachaBatch \<Rightarrow> int"
  assumes "\<not> file_finalized f" "std NachaFileControl_fields (fileControl f)" "nineFill f = []"
    and "getInt ''blockingFactor'' (fileHeader f) = Inr bf" "0 < bf"
    and "\<forall>b \<in> set (batches f).
           length (entries b) < 10 ^ 6 \<and>
           (\<exists>b0 n. \<not> finalized b0 \<and> std NachaBatchHeader_fields (batchHeader b0) \<and>
              std NachaBatchControl_fields (batchControl b0) \<and>
              NachaBatch_finalize n st b0 = (None, b)) \<and>
           getInt ''entryHash'' (batchControl b) = Inr (h b) \<and>
           getInt ''debitAmount'' (batchControl b) = Inr (d b) \<and>
           getInt ''creditAmount'' (batchControl b) = Inr (c b)"
    and "B = int (length (batches f))"
    and "E = sum_list (map (\<lambda>b. int (length (entries b))) (batches f))"
    and "rc = 2 + 2 * B + E"
    and "B < 10 ^ 6" "E < 10 ^ 8" "(rc + bf - 1) div bf < 10 ^ 6"
    and "0 \<le> sum_list (map d (batches f))" "sum_list (map d (batches f)) < 10 ^ 12"
    and "0 \<le> sum_list (map c (batches f))" "sum_list (map c (batches f)) < 10 ^ 12"
  shows "fst (NachaFile_finalize f) = None \<and>
     file_finalized (snd (NachaFile_finalize f)) \<and>
     getInt ''batchCount'' (fileControl (snd (NachaFile_finalize f))) = Inr B \<and>
     getInt ''entryCount'' (fileControl (snd (NachaFile_finalize f))) = Inr E \<and>
     getInt ''entryHash'' (fileControl (snd (NachaFile_finalize f)))
       = Inr (sum_list (map h (batches f)) mod 10 ^ 10) \<and>
     getInt ''debitAmount'' (fileControl (snd (NachaFile_finalize f)))
       = Inr (sum_list (map d (batches f))) \<and>
     getInt ''creditAmount'' (fileControl (snd (NachaFile_finalize f)))
       = Inr (sum_list (map c (batches f))) \<and>
     getInt ''blockCount'' (fileControl (snd (NachaFile_finalize f)))
       = Inr ((rc + bf - 1) div bf) \<and>
     nineFill (snd (NachaFile_finalize f))
       = join NACHA_EOL (replicate (if rc mod bf = 0 then 0 else nat (bf - rc mod bf))
                           (replicate 94 CHR ''9''))"
proof -
  let ?f' = "snd (NachaFile_finalize f)"
  have cnt: "getInt ''entryCount'' (batchControl b) = Inr (int (length (entries b)))"
    if "b \<in> set (batches f)" for b
  proof -
    from assms(6) that obtain b0 n where "\<not> finalized b0"
      "std NachaBatchHeader_fields (batchHeader b0)"
      "std NachaBatchControl_fields (batchControl b0)"
      "NachaBatch_finalize n st b0 = (None, b)" and "length (entries b) < 10 ^ 6"
      by blast
    then show ?thesis by (rule finalized_entryCount)
  qed
  have ctl: "\<forall>b \<in> set (batches f).
           getInt ''entryCount'' (batchControl b) = Inr (int (length (entries b))) \<and>
           getInt ''entryHash'' (batchControl b) = Inr (h b) \<and>
           getInt ''debitAmount'' (batchControl b) = Inr (d b) \<and>
           getInt ''creditAmount'' (batchControl b) = Inr (c b)"
    using assms(6) cnt by blast
  have t: "file_totals (batches f) (0, 0, 0, 0) =
      Inr (E, sum_list (map h (batches f)), sum_list (map d (batches f)),
           sum_list (map c (batches f)))"
    using file_totals_sum [OF ctl, of 0 0 0 0] assms(8) by simp
  have bf: "bf \<noteq> 0" using assms(5) by simp
  note res = NachaFile_finalize_result [OF assms(1,2) t assms(4) bf]
  have rc: "2 + int (length (batches f)) * 2 + E = rc" using assms(7,9) by simp
  have E0: "0 \<le> E" unfolding assms(8) by (rule sum_list_nonneg) auto
  have B0: "0 \<le> B" using assms(7) by simp
  have rc0: "0 \<le> rc" using assms(9) E0 B0 by simp
  have bc: "(if rc mod bf \<noteq> 0 then rc div bf + 1 else rc div bf) = (rc + bf - 1) div bf"
    using ceil_div [OF assms(5), of rc] by simp
  have bc0: "0 \<le> (rc + bf - 1) div bf"
    using rc0 assms(5) by (intro pos_imp_zdiv_nonneg_iff [THEN iffD2]) simp_all
  have 1: "getInt ''batchCount'' (fileControl ?f') = Inr B"
    using res(7) _ B0 assms(10) unfolding assms(7) [symmetric] by (rule getInt_numtext) simp
  have 2: "getInt ''entryCount'' (fileControl ?f') = Inr E"
    using res(9) _ E0 assms(11) by (rule getInt_numtext) simp
  have 3: "getInt ''entryHash'' (fileControl ?f') = Inr (sum_list (map h (batches f)) mod 10 ^ 10)"
    using getInt_numtext [OF res(10)] by simp
  have 4: "getInt ''debitAmount'' (fileControl ?f') = Inr (sum_list (map d (batches f)))"
    using res(11) _ assms(13,14) by (rule getInt_numtext) simp
  have 5: "getInt ''creditAmount'' (fileControl ?f') = Inr (sum_list (map c (batches f)))"
    using res(12) _ assms(15,16) by (rule getInt_numtext) simp
  have 6: "getInt ''blockCount'' (fileControl ?f') = Inr ((rc + bf - 1) div bf)"
    using res(8) [unfolded rc bc] _ bc0 assms(12) by (rule getInt_numtext) simp
  have 7: "nineFill ?f' = join NACHA_EOL
      (replicate (if rc mod bf = 0 then 0 else nat (bf - rc mod bf)) (replicate 94 CHR ''9''))"
    using res(5) [unfolded rc] assms(3) by simp
  show ?thesis using res(1,2) 1 2 3 4 5 6 7 by simp
qed

lemma addBatch_ok:
  assumes "\<not> file_finalized f"
    "fst (NachaBatch_finalize (I (int (length (batches f)) + 1)) st b) = None"
  shows "addBatch b st f =
     (None, f\<lparr>batches := batches f @ [snd (NachaBatch_finalize (I (int (length (batches f)) + 1)) st b)]\<rparr>,
      snd (NachaBatch_finalize (I (int (length (batches f)) + 1)) st b))"
  using assms
  by (cases "NachaBatch_finalize (I (int (length (batches f)) + 1)) st b") (simp add: addBatch_def)

lemma file0_std:
  "\<not> file_finalized file0" "std NachaFileControl_fields (fileControl file0)" "nineFill file0 = []"
  "batches file0 = []" "getInt ''blockingFactor'' (fileHeader file0) = Inr 10"
  by (simp_all add: file0_def std_def getInt_def getValue_def get_slice_def FileHeader_lookup
      num_eval_defs)

lemma batch0_finalized:
  fixes es :: "nat list" and k :: int and n :: pyval and st :: store
  assumes "\<forall>e \<in> set es. getInt ''rdfiId'' (st e) = Inr r \<and> getInt ''amount'' (st e) = Inr a"
    and "k = int (length es)" "k < 10 ^ 6" "0 \<le> k * a" "k * a < 10 ^ 12"
  defines "b' \<equiv> snd (NachaBatch_finalize n st (batch0\<lparr>entries := es\<rparr>))"
  shows "fst (NachaBatch_finalize n st (batch0\<lparr>entries := es\<rparr>)) = None"
    and "entries b' = es"
    and "getInt ''entryCount'' (batchControl b') = Inr k"
    and "getInt ''entryHash'' (batchControl b') = Inr ((k * r) mod 10000000000)"
    and "getInt ''debitAmount'' (batchControl b') = Inr 0"
    and "getInt ''creditAmount'' (batchControl b') = Inr (k * a)"
proof -
  let ?b = "batch0\<lparr>entries := es\<rparr>"
  have b: "\<not> finalized ?b" "std NachaBatchHeader_fields (batchHeader ?b)"
    "std NachaBatchControl_fields (batchControl ?b)"
    "getValue ''serviceCode'' (batchHeader ?b) = Inr ''220''"
    using batch0_std by simp_all
  have e: "\<forall>e \<in> set (entries ?b).
      getInt ''rdfiId'' (st e) = Inr ((\<lambda>_. r) e) \<and> getInt ''amount'' (st e) = Inr ((\<lambda>_. a) e)"
    using assms(1) by simp
  have t: "batch_totals ''220'' st (entries ?b) (0, 0, 0) = Inr (k * r, 0, k * a)"
    using batch_totals_sum [OF e, of "''220''" 0 0 0] assms(2)
    by (simp add: service_defs sum_list_const)
  note res = NachaBatch_finalize_result [OF b t, of n]
  show "fst (NachaBatch_finalize n st ?b) = None" by (rule res(1))
  show "entries b' = es" using res(3) by (simp add: b'_def)
  show "getInt ''entryCount'' (batchControl b') = Inr k"
    using res(9) assms(2,3) unfolding b'_def by (intro getInt_numtext [where w = 6]) simp_all
  show "getInt ''entryHash'' (batchControl b') = Inr ((k * r) mod 10000000000)"
    using res(10) unfolding b'_def by (intro getInt_numtext [where w = 10]) simp_all
  show "getInt ''debitAmount'' (batchControl b') = Inr 0"
    using res(11) unfolding b'_def by (intro getInt_numtext [where w = 12]) simp_all
  show "getInt ''creditAmount'' (batchControl b') = Inr (k * a)"
    using res(12) assms(4,5) unfolding b'_def by (intro getInt_numtext [where w = 12]) simp_all
qed

theorem file_finalize_totals_witness:
  "length (batches file_one) = 1 \<and>
   fst (NachaFile_finalize file_one) = None \<and>
   getInt ''batchCount'' (fileControl (snd (NachaFile_finalize file_one))) = Inr 1 \<and>
   getInt ''entryCount'' (fileControl (snd (NachaFile_finalize file_one))) = Inr 0 \<and>
   getInt ''blockCount'' (fileControl (snd (NachaFile_finalize file_one))) = Inr 1 \<and>
   nineFill (snd (NachaFile_finalize file_one))
     = join NACHA_EOL (replicate 6 (replicate 94 CHR ''9''))"
proof -
  let ?fin = "snd (NachaBatch_finalize (I 1) blank_store batch0)"
  have e: "\<forall>e \<in> set []. getInt ''rdfiId'' (blank_store e) = Inr 0 \<and>
      getInt ''amount'' (blank_store e) = Inr 0" by simp
  have b0: "batch0\<lparr>entries := []\<rparr> = batch0" by (simp add: batch0_def)
  have fin: "fst (NachaBatch_finalize (I 1) blank_store batch0) = None"
    "entries ?fin = []"
    "getInt ''entryCount'' (batchControl ?fin) = Inr 0"
    "getInt ''entryHash'' (batchControl ?fin) = Inr 0"
    "getInt ''debitAmount'' (batchControl ?fin) = Inr 0"
    "getInt ''creditAmount'' (batchControl ?fin) = Inr 0"
    using batch0_finalized [OF e, of 0 "I 1"] by (simp_all add: b0)
  have one: "file_one = file0\<lparr>batches := [?fin]\<rparr>"
    using addBatch_ok [of file0 blank_store batch0] file0_std(1,4) fin(1)
    by (simp add: file_one_def)
  have f: "\<not> file_finalized file_one" "std NachaFileControl_fields (fileControl file_one)"
    "nineFill file_one = []" "getInt ''blockingFactor'' (fileHeader file_one) = Inr 10"
    "batches file_one = [?fin]"
    using file0_std by (simp_all add: one)
  have org: "\<exists>b0 n. \<not> finalized b0 \<and> std NachaBatchHeader_fields (batchHeader b0) \<and>
              std NachaBatchControl_fields (batchControl b0) \<and>
              NachaBatch_finalize n blank_store b0 = (None, ?fin)"
    using batch0_std(1,2,3) pair_fst_snd [OF fin(1)] by blast
  have b: "\<forall>b \<in> set (batches file_one).
           length (entries b) < 10 ^ 6 \<and>
           (\<exists>b0 n. \<not> finalized b0 \<and> std NachaBatchHeader_fields (batchHeader b0) \<and>
              std NachaBatchControl_fields (batchControl b0) \<and>
              NachaBatch_finalize n blank_store b0 = (None, b)) \<and>
           getInt ''entryHash'' (batchControl b) = Inr ((\<lambda>_. 0) b) \<and>
           getInt ''debitAmount'' (batchControl b) = Inr ((\<lambda>_. 0) b) \<and>
           getInt ''creditAmount'' (batchControl b) = Inr ((\<lambda>_. 0) b)"
    using fin org by (simp add: f(5))
  show ?thesis
    using file_finalize_totals [OF f(1,2,3,4) _ b, of 1 0 4] fin(2)
    by (simp add: f(5))
qed

text \<open>
  The claim as stated fails when a total outgrows its field: two credits-only batches of
  100 entries of 9999999999 each have the credit totals 999999999900, which sum to
  1999999999800, thirteen digits, and the twelve-byte field keeps the first twelve.
\<close>

theorem file_finalize_totals_counterexample:
  "length (batches file_two) = 2 \<and>
   getInt ''creditAmount'' (batchControl (batches file_two ! 0)) = Inr 999999999900 \<and>
   getInt ''creditAmount'' (batchControl (batches file_two ! 1)) = Inr 999999999900 \<and>
   fst (NachaFile_finalize file_two) = None \<and>
   getInt ''creditAmount'' (fileControl (snd (NachaFile_finalize file_two))) = Inr 199999999980 \<and>
   (199999999980 :: int) \<noteq> 999999999900 + 999999999900"
proof -
  let ?finA = "snd (NachaBatch_finalize (I 1) max_store batchA)"
  let ?finB = "snd (NachaBatch_finalize (I 2) max_store batchB)"
  have e: "\<forall>e \<in> set es. getInt ''rdfiId'' (max_store e) = Inr 7640125 \<and>
      getInt ''amount'' (max_store e) = Inr 9999999999" for es
    by (simp add: max_store_def entry_max_fields)
  have A: "fst (NachaBatch_finalize (I 1) max_store batchA) = None"
    "getInt ''entryCount'' (batchControl ?finA) = Inr 100"
    "getInt ''entryHash'' (batchControl ?finA) = Inr 764012500"
    "getInt ''debitAmount'' (batchControl ?finA) = Inr 0"
    "getInt ''creditAmount'' (batchControl ?finA) = Inr 999999999900"
    using batch0_finalized [OF e, of 100 "[0..<100]" "I 1"] by (simp_all add: batchA_def)
  have B: "fst (NachaBatch_finalize (I 2) max_store batchB) = None"
    "getInt ''entryCount'' (batchControl ?finB) = Inr 100"
    "getInt ''entryHash'' (batchControl ?finB) = Inr 764012500"
    "getInt ''debitAmount'' (batchControl ?finB) = Inr 0"
    "getInt ''creditAmount'' (batchControl ?finB) = Inr 999999999900"
    using batch0_finalized [OF e, of 100 "[100..<200]" "I 2"] by (simp_all add: batchB_def)
  let ?f1 = "file0\<lparr>batches := [?finA]\<rparr>"
  have 1: "fst (snd (addBatch batchA max_store file0)) = ?f1"
    using addBatch_ok [of file0 max_store batchA] file0_std(1,4) A(1) by simp
  have two: "file_two = file0\<lparr>batches := [?finA, ?finB]\<rparr>"
    using addBatch_ok [of ?f1 max_store batchB] file0_std(1) B(1)
    by (simp add: file_two_def 1)
  have f: "\<not> file_finalized file_two" "std NachaFileControl_fields (fileControl file_two)"
    "getInt ''blockingFactor'' (fileHeader file_two) = Inr 10" "batches file_two = [?finA, ?finB]"
    using file0_std by (simp_all add: two)
  have b: "\<forall>b \<in> set (batches file_two).
           getInt ''entryCount'' (batchControl b) = Inr ((\<lambda>_. 100) b) \<and>
           getInt ''entryHash'' (batchControl b) = Inr ((\<lambda>_. 764012500) b) \<and>
           getInt ''debitAmount'' (batchControl b) = Inr ((\<lambda>_. 0) b) \<and>
           getInt ''creditAmount'' (batchControl b) = Inr ((\<lambda>_. 999999999900) b)"
    using A B by (simp add: f(4))
  have t: "file_totals (batches file_two) (0, 0, 0, 0) = Inr (200, 1528025000, 0, 1999999999800)"
    using file_totals_sum [OF b, of 0 0 0 0] by (simp add: f(4))
  note res = NachaFile_finalize_result [OF f(1,2) t f(3)]
  have "numtext 12 1999999999800 = ''199999999980''"
    by (simp add: numtext_def rjust_def num_eval_defs)
  then have "getInt ''creditAmount'' (fileControl (snd (NachaFile_finalize file_two)))
     = Inr 199999999980"
    using res(12) by (simp add: num_eval_defs)
  then show ?thesis using res(1) A(5) B(5) by (simp add: f(4))
qed


section \<open>Rendering\<close>





section \<open>The lines of a file\<close>











end
